theory Spec2Isabelle
  imports Complex_Main
begin

section \<open>The Template parameter class of handright\<close>

text \<open>
  A shallow embedding of \<^verbatim>\<open>src/handright/_template.py\<close>: the class \<^verbatim>\<open>Template\<close>, its
  constructor, setters, getters and \<^verbatim>\<open>__eq__\<close>, and the function \<^verbatim>\<open>copy_templates\<close>.

  Python's \<^verbatim>\<open>int\<close> is \<open>int\<close>, and a Python \<^verbatim>\<open>str\<close> is a sequence of Unicode code
  points.
\<close>

subsection \<open>Data\<close>

type_synonym str = "nat list"

text \<open>
  A Pillow image, as far as the class looks at it: its \<^verbatim>\<open>mode\<close> (an ASCII string such as
  \<^verbatim>\<open>"RGB"\<close> or \<^verbatim>\<open>"L"\<close>), its \<^verbatim>\<open>size\<close> (width, height) and its pixel data, which only
  \<^verbatim>\<open>==\<close> sees.
\<close>

record image =
  mode :: string
  size_img :: "int \<times> int"
  pixels :: "nat list"

text \<open>
  A fill value, as the docstring names them and as \<^verbatim>\<open>set_fill\<close> derives them: an int
  such as \<^verbatim>\<open>0\<close> or a tuple of ints such as \<^verbatim>\<open>(255, 0, 0)\<close>.
\<close>

datatype fill = Scalar int | Bands "int list"

text \<open>
  A Python \<^verbatim>\<open>float\<close>: a finite double, given by the real number it denotes (the two
  zeros are one value: they compare equal), an infinity or \<^verbatim>\<open>nan\<close>. The operator \<^verbatim>\<open>==\<close>
  on floats is false as soon as one operand is \<^verbatim>\<open>nan\<close>, also when both are.
\<close>

datatype pyfloat = Finite real | PosInf | NegInf | NaN

definition float_eq :: "pyfloat \<Rightarrow> pyfloat \<Rightarrow> bool" where
  "float_eq x y =
     (case x of
        NaN \<Rightarrow> False
      | _ \<Rightarrow> (case y of NaN \<Rightarrow> False | _ \<Rightarrow> x = y))"

definition is_nan :: "pyfloat \<Rightarrow> bool" where
  "is_nan x = (case x of NaN \<Rightarrow> True | _ \<Rightarrow> False)"

text \<open>
  The instance attributes \<^verbatim>\<open>self._background\<close> ... \<^verbatim>\<open>self._perturb_theta_sigma\<close>. The font
  is a Pillow font instance that the class only stores and compares: a type parameter.
\<close>

record 'font template =
  attr_background :: image
  attr_font_size :: int
  attr_line_spacing :: int
  attr_font :: 'font
  attr_fill :: fill
  attr_left_margin :: int
  attr_top_margin :: int
  attr_right_margin :: int
  attr_bottom_margin :: int
  attr_word_spacing :: int
  attr_line_spacing_sigma :: pyfloat
  attr_font_size_sigma :: pyfloat
  attr_word_spacing_sigma :: pyfloat
  attr_end_chars :: str
  attr_perturb_x_sigma :: pyfloat
  attr_perturb_y_sigma :: pyfloat
  attr_perturb_theta_sigma :: pyfloat

text \<open>
  The second operand of \<^verbatim>\<open>==\<close> is any Python object; \<^verbatim>\<open>isinstance(other, Template)\<close>
  tells the two cases apart.
\<close>

datatype 'font pyobj = PyTemplate "'font template" | PyOther

text \<open>
  The outcome of a call is an error or a value. \<^verbatim>\<open>InvalidParameter\<close> is the error kind of
  the specification; the source file defines no exception and has no \<^verbatim>\<open>raise\<close> statement.
  The errors the code can raise are those of the division of two ints.
\<close>

datatype error = InvalidParameter | OverflowError | ZeroDivisionError

definition bind_result :: "error + 'a \<Rightarrow> ('a \<Rightarrow> error + 'b) \<Rightarrow> error + 'b" where
  "bind_result r f = (case r of Inl e \<Rightarrow> Inl e | Inr x \<Rightarrow> f x)"

subsection \<open>Division of ints\<close>

text \<open>
  \<^verbatim>\<open>a / b\<close> on two ints is the double nearest to the exact quotient, ties to even. It
  raises \<^verbatim>\<open>OverflowError\<close> when that is beyond the largest double
  \<open>2 ^ 1024 - 2 ^ 971\<close>, which is when the exact quotient is at least
  \<open>2 ^ 1024 - 2 ^ 970\<close> in absolute value, and \<^verbatim>\<open>ZeroDivisionError\<close> when \<open>b\<close> is zero.
  For a quotient in range the rounding is idealised: \<open>Finite\<close> carries the exact
  quotient. The class divides by 32 and 64 only, where the double is the exact quotient
  for every dividend below \<open>2 ^ 53\<close> in absolute value.
\<close>

definition DBL_OVERFLOW :: real where
  "DBL_OVERFLOW = 2 ^ 1024 - 2 ^ 970"

definition overflows :: "int \<Rightarrow> int \<Rightarrow> bool" where
  "overflows a b = (DBL_OVERFLOW \<le> \<bar>real_of_int a / real_of_int b\<bar>)"

definition int_truediv :: "int \<Rightarrow> int \<Rightarrow> error + pyfloat" where
  "int_truediv a b =
     (if b = 0 then Inl ZeroDivisionError
      else if overflows a b then Inl OverflowError
      else Inr (Finite (real_of_int a / real_of_int b)))"

subsection \<open>Module constants\<close>

definition DEFAULT_END_CHARS :: str where
  "DEFAULT_END_CHARS =
     [65292, 12290, 12299, 65311, 65307, 65306, 8217, 8221, 12305, 65373, 12289, 65281,
      65285, 65289, 44, 46, 62, 63, 59, 58, 93, 125, 33, 37, 41, 8242, 8243, 8451, 8457]"

definition DEFAULT_PERTURB_THETA_SIGMA :: pyfloat where
  "DEFAULT_PERTURB_THETA_SIGMA = Finite (7 / 100)"

definition DEFAULT_WORD_SPACING :: int where
  "DEFAULT_WORD_SPACING = 0"

definition DEFAULT_LEFT_MARGIN :: int where
  "DEFAULT_LEFT_MARGIN = 0"

definition DEFAULT_TOP_MARGIN :: int where
  "DEFAULT_TOP_MARGIN = 0"

definition DEFAULT_RIGHT_MARGIN :: int where
  "DEFAULT_RIGHT_MARGIN = 0"

definition DEFAULT_BOTTOM_MARGIN :: int where
  "DEFAULT_BOTTOM_MARGIN = 0"

subsection \<open>Setters\<close>

text \<open>
  A setter assigns attributes of \<open>self\<close> and returns nothing: the model takes the object
  and returns the object after the call. A parameter annotated \<^verbatim>\<open>Optional[...]\<close> is an
  \<open>option\<close>, \<open>None\<close> being Python's \<^verbatim>\<open>None\<close>. The five setters that divide the font
  size return an error or the object; the other twelve evaluate nothing that can raise.
\<close>

definition set_background :: "'font template \<Rightarrow> image \<Rightarrow> 'font template" where
  "set_background self background = self\<lparr>attr_background := background\<rparr>"

definition set_font_size :: "'font template \<Rightarrow> int \<Rightarrow> 'font template" where
  "set_font_size self font_size = self\<lparr>attr_font_size := font_size\<rparr>"

definition set_line_spacing :: "'font template \<Rightarrow> int option \<Rightarrow> 'font template" where
  "set_line_spacing self line_spacing =
     (case line_spacing of
        None \<Rightarrow> self\<lparr>attr_line_spacing := attr_font_size self\<rparr>
      | Some v \<Rightarrow> self\<lparr>attr_line_spacing := v\<rparr>)"

definition set_font :: "'font template \<Rightarrow> 'font \<Rightarrow> 'font template" where
  "set_font self font = self\<lparr>attr_font := font\<rparr>"

text \<open>
  \<^verbatim>\<open>count_bands\<close> comes from \<^verbatim>\<open>handright._util\<close>, which is not part of the sources at
  hand: it is a parameter of the model. \<^verbatim>\<open>(0,) * n\<close> is the tuple of \<open>n\<close> zeros, and the
  empty tuple for \<open>n \<le> 0\<close>.
\<close>

definition set_fill ::
  "(string \<Rightarrow> int) \<Rightarrow> 'font template \<Rightarrow> fill option \<Rightarrow> 'font template" where
  "set_fill count_bands self fill =
     (case fill of
        None \<Rightarrow>
          (let n_bands = count_bands (mode (attr_background self))
           in if n_bands = 1 then self\<lparr>attr_fill := Scalar 0\<rparr>
              else self\<lparr>attr_fill := Bands (replicate (nat n_bands) 0)\<rparr>)
      | Some v \<Rightarrow> self\<lparr>attr_fill := v\<rparr>)"

definition set_left_margin :: "'font template \<Rightarrow> int \<Rightarrow> 'font template" where
  "set_left_margin self left_margin = self\<lparr>attr_left_margin := left_margin\<rparr>"

definition set_top_margin :: "'font template \<Rightarrow> int \<Rightarrow> 'font template" where
  "set_top_margin self top_margin = self\<lparr>attr_top_margin := top_margin\<rparr>"

definition set_right_margin :: "'font template \<Rightarrow> int \<Rightarrow> 'font template" where
  "set_right_margin self right_margin = self\<lparr>attr_right_margin := right_margin\<rparr>"

definition set_bottom_margin :: "'font template \<Rightarrow> int \<Rightarrow> 'font template" where
  "set_bottom_margin self bottom_margin = self\<lparr>attr_bottom_margin := bottom_margin\<rparr>"

definition set_word_spacing :: "'font template \<Rightarrow> int \<Rightarrow> 'font template" where
  "set_word_spacing self word_spacing = self\<lparr>attr_word_spacing := word_spacing\<rparr>"

definition set_line_spacing_sigma ::
  "'font template \<Rightarrow> pyfloat option \<Rightarrow> error + 'font template" where
  "set_line_spacing_sigma self line_spacing_sigma =
     (case line_spacing_sigma of
        None \<Rightarrow>
          bind_result (int_truediv (attr_font_size self) 32)
            (\<lambda>q. Inr (self\<lparr>attr_line_spacing_sigma := q\<rparr>))
      | Some v \<Rightarrow> Inr (self\<lparr>attr_line_spacing_sigma := v\<rparr>))"

definition set_font_size_sigma ::
  "'font template \<Rightarrow> pyfloat option \<Rightarrow> error + 'font template" where
  "set_font_size_sigma self font_size_sigma =
     (case font_size_sigma of
        None \<Rightarrow>
          bind_result (int_truediv (attr_font_size self) 64)
            (\<lambda>q. Inr (self\<lparr>attr_font_size_sigma := q\<rparr>))
      | Some v \<Rightarrow> Inr (self\<lparr>attr_font_size_sigma := v\<rparr>))"

definition set_word_spacing_sigma ::
  "'font template \<Rightarrow> pyfloat option \<Rightarrow> error + 'font template" where
  "set_word_spacing_sigma self word_spacing_sigma =
     (case word_spacing_sigma of
        None \<Rightarrow>
          bind_result (int_truediv (attr_font_size self) 32)
            (\<lambda>q. Inr (self\<lparr>attr_word_spacing_sigma := q\<rparr>))
      | Some v \<Rightarrow> Inr (self\<lparr>attr_word_spacing_sigma := v\<rparr>))"

definition set_end_chars :: "'font template \<Rightarrow> str \<Rightarrow> 'font template" where
  "set_end_chars self end_chars = self\<lparr>attr_end_chars := end_chars\<rparr>"

definition set_perturb_x_sigma ::
  "'font template \<Rightarrow> pyfloat option \<Rightarrow> error + 'font template" where
  "set_perturb_x_sigma self perturb_x_sigma =
     (case perturb_x_sigma of
        None \<Rightarrow>
          bind_result (int_truediv (attr_font_size self) 32)
            (\<lambda>q. Inr (self\<lparr>attr_perturb_x_sigma := q\<rparr>))
      | Some v \<Rightarrow> Inr (self\<lparr>attr_perturb_x_sigma := v\<rparr>))"

definition set_perturb_y_sigma ::
  "'font template \<Rightarrow> pyfloat option \<Rightarrow> error + 'font template" where
  "set_perturb_y_sigma self perturb_y_sigma =
     (case perturb_y_sigma of
        None \<Rightarrow>
          bind_result (int_truediv (attr_font_size self) 32)
            (\<lambda>q. Inr (self\<lparr>attr_perturb_y_sigma := q\<rparr>))
      | Some v \<Rightarrow> Inr (self\<lparr>attr_perturb_y_sigma := v\<rparr>))"

definition set_perturb_theta_sigma :: "'font template \<Rightarrow> pyfloat \<Rightarrow> 'font template" where
  "set_perturb_theta_sigma self perturb_theta_sigma =
     self\<lparr>attr_perturb_theta_sigma := perturb_theta_sigma\<rparr>"

subsection \<open>Getters\<close>

definition get_background :: "'font template \<Rightarrow> image" where
  "get_background self = attr_background self"

definition get_line_spacing :: "'font template \<Rightarrow> int" where
  "get_line_spacing self = attr_line_spacing self"

definition get_font_size :: "'font template \<Rightarrow> int" where
  "get_font_size self = attr_font_size self"

definition get_font :: "'font template \<Rightarrow> 'font" where
  "get_font self = attr_font self"

definition get_fill :: "'font template \<Rightarrow> fill" where
  "get_fill self = attr_fill self"

definition get_left_margin :: "'font template \<Rightarrow> int" where
  "get_left_margin self = attr_left_margin self"

definition get_top_margin :: "'font template \<Rightarrow> int" where
  "get_top_margin self = attr_top_margin self"

definition get_right_margin :: "'font template \<Rightarrow> int" where
  "get_right_margin self = attr_right_margin self"

definition get_bottom_margin :: "'font template \<Rightarrow> int" where
  "get_bottom_margin self = attr_bottom_margin self"

definition get_word_spacing :: "'font template \<Rightarrow> int" where
  "get_word_spacing self = attr_word_spacing self"

definition get_line_spacing_sigma :: "'font template \<Rightarrow> pyfloat" where
  "get_line_spacing_sigma self = attr_line_spacing_sigma self"

definition get_font_size_sigma :: "'font template \<Rightarrow> pyfloat" where
  "get_font_size_sigma self = attr_font_size_sigma self"

definition get_word_spacing_sigma :: "'font template \<Rightarrow> pyfloat" where
  "get_word_spacing_sigma self = attr_word_spacing_sigma self"

definition get_end_chars :: "'font template \<Rightarrow> str" where
  "get_end_chars self = attr_end_chars self"

definition get_perturb_x_sigma :: "'font template \<Rightarrow> pyfloat" where
  "get_perturb_x_sigma self = attr_perturb_x_sigma self"

definition get_perturb_y_sigma :: "'font template \<Rightarrow> pyfloat" where
  "get_perturb_y_sigma self = attr_perturb_y_sigma self"

definition get_perturb_theta_sigma :: "'font template \<Rightarrow> pyfloat" where
  "get_perturb_theta_sigma self = attr_perturb_theta_sigma self"

definition get_size :: "'font template \<Rightarrow> int \<times> int" where
  "get_size self = size_img (get_background self)"

subsection \<open>Construction\<close>

text \<open>
  \<^verbatim>\<open>__init__\<close> receives the new object as \<open>self\<close> and calls the seventeen setters in the
  order of the source; an error of a setter ends it. An attribute that were read before
  its assignment would raise \<^verbatim>\<open>AttributeError\<close>; lemma \<open>Template_init_fresh\<close> below
  shows that the result does not depend on the attributes \<open>self\<close> arrives with, so none
  is.
\<close>

definition Template_init ::
  "(string \<Rightarrow> int) \<Rightarrow> 'font template \<Rightarrow> image \<Rightarrow> int \<Rightarrow> 'font \<Rightarrow> int option \<Rightarrow> fill option \<Rightarrow>
   int \<Rightarrow> int \<Rightarrow> int \<Rightarrow> int \<Rightarrow> int \<Rightarrow> pyfloat option \<Rightarrow> pyfloat option \<Rightarrow> pyfloat option \<Rightarrow>
   str \<Rightarrow> pyfloat option \<Rightarrow> pyfloat option \<Rightarrow> pyfloat \<Rightarrow> error + 'font template" where
  "Template_init count_bands self background font_size font line_spacing fill
     left_margin top_margin right_margin bottom_margin word_spacing
     line_spacing_sigma font_size_sigma word_spacing_sigma end_chars
     perturb_x_sigma perturb_y_sigma perturb_theta_sigma =
     (let self = set_background self background;
          self = set_font_size self font_size;
          self = set_line_spacing self line_spacing;
          self = set_font self font;
          self = set_fill count_bands self fill;
          self = set_left_margin self left_margin;
          self = set_top_margin self top_margin;
          self = set_right_margin self right_margin;
          self = set_bottom_margin self bottom_margin;
          self = set_word_spacing self word_spacing
      in bind_result (set_line_spacing_sigma self line_spacing_sigma) (\<lambda>self.
         bind_result (set_font_size_sigma self font_size_sigma) (\<lambda>self.
         bind_result (set_word_spacing_sigma self word_spacing_sigma) (\<lambda>self.
         (let self = set_end_chars self end_chars
          in bind_result (set_perturb_x_sigma self perturb_x_sigma) (\<lambda>self.
             bind_result (set_perturb_y_sigma self perturb_y_sigma) (\<lambda>self.
             Inr (set_perturb_theta_sigma self perturb_theta_sigma))))))))"

text \<open>
  The keyword arguments of a call \<^verbatim>\<open>Template(background, font_size, font, ...)\<close>: \<open>None\<close>
  is an argument the caller left out (for a parameter whose default is \<^verbatim>\<open>None\<close>, also
  one passed as \<^verbatim>\<open>None\<close>).
\<close>

record kwargs =
  kw_line_spacing :: "int option"
  kw_fill :: "fill option"
  kw_left_margin :: "int option"
  kw_top_margin :: "int option"
  kw_right_margin :: "int option"
  kw_bottom_margin :: "int option"
  kw_word_spacing :: "int option"
  kw_line_spacing_sigma :: "pyfloat option"
  kw_font_size_sigma :: "pyfloat option"
  kw_word_spacing_sigma :: "pyfloat option"
  kw_end_chars :: "str option"
  kw_perturb_x_sigma :: "pyfloat option"
  kw_perturb_y_sigma :: "pyfloat option"
  kw_perturb_theta_sigma :: "pyfloat option"

definition no_kwargs :: kwargs where
  "no_kwargs =
     \<lparr>kw_line_spacing = None, kw_fill = None, kw_left_margin = None, kw_top_margin = None,
      kw_right_margin = None, kw_bottom_margin = None, kw_word_spacing = None,
      kw_line_spacing_sigma = None, kw_font_size_sigma = None, kw_word_spacing_sigma = None,
      kw_end_chars = None, kw_perturb_x_sigma = None, kw_perturb_y_sigma = None,
      kw_perturb_theta_sigma = None\<rparr>"

definition default_arg :: "'a \<Rightarrow> 'a option \<Rightarrow> 'a" where
  "default_arg d a = (case a of None \<Rightarrow> d | Some v \<Rightarrow> v)"

text \<open>
  The call expression: the defaults of the signature are bound to the parameters left
  out, \<^verbatim>\<open>__init__\<close> runs on the new object, and the call yields the object, or the error
  that \<^verbatim>\<open>__init__\<close> raised.
\<close>

definition Template_new ::
  "(string \<Rightarrow> int) \<Rightarrow> 'font template \<Rightarrow> image \<Rightarrow> int \<Rightarrow> 'font \<Rightarrow> kwargs \<Rightarrow>
   error + 'font template" where
  "Template_new count_bands self background font_size font kw =
     Template_init count_bands self background font_size font
       (kw_line_spacing kw)
       (kw_fill kw)
       (default_arg DEFAULT_LEFT_MARGIN (kw_left_margin kw))
       (default_arg DEFAULT_TOP_MARGIN (kw_top_margin kw))
       (default_arg DEFAULT_RIGHT_MARGIN (kw_right_margin kw))
       (default_arg DEFAULT_BOTTOM_MARGIN (kw_bottom_margin kw))
       (default_arg DEFAULT_WORD_SPACING (kw_word_spacing kw))
       (kw_line_spacing_sigma kw)
       (kw_font_size_sigma kw)
       (kw_word_spacing_sigma kw)
       (default_arg DEFAULT_END_CHARS (kw_end_chars kw))
       (kw_perturb_x_sigma kw)
       (kw_perturb_y_sigma kw)
       (default_arg DEFAULT_PERTURB_THETA_SIGMA (kw_perturb_theta_sigma kw))"

subsection \<open>What a successful construction returns\<close>

text \<open>
  The attribute values of the Template that the constructor returns when no division
  overflows, written out; lemmas \<open>Template_new_returns\<close> and \<open>Template_new_attrs\<close> below
  relate it to \<open>Template_new\<close>.
\<close>

definition constructed ::
  "(string \<Rightarrow> int) \<Rightarrow> image \<Rightarrow> int \<Rightarrow> 'font \<Rightarrow> kwargs \<Rightarrow> 'font template" where
  "constructed count_bands background font_size font kw =
     \<lparr>attr_background = background,
      attr_font_size = font_size,
      attr_line_spacing = (case kw_line_spacing kw of None \<Rightarrow> font_size | Some v \<Rightarrow> v),
      attr_font = font,
      attr_fill =
        (case kw_fill kw of
           None \<Rightarrow>
             if count_bands (mode background) = 1 then Scalar 0
             else Bands (replicate (nat (count_bands (mode background))) 0)
         | Some v \<Rightarrow> v),
      attr_left_margin = (case kw_left_margin kw of None \<Rightarrow> 0 | Some v \<Rightarrow> v),
      attr_top_margin = (case kw_top_margin kw of None \<Rightarrow> 0 | Some v \<Rightarrow> v),
      attr_right_margin = (case kw_right_margin kw of None \<Rightarrow> 0 | Some v \<Rightarrow> v),
      attr_bottom_margin = (case kw_bottom_margin kw of None \<Rightarrow> 0 | Some v \<Rightarrow> v),
      attr_word_spacing = (case kw_word_spacing kw of None \<Rightarrow> 0 | Some v \<Rightarrow> v),
      attr_line_spacing_sigma =
        (case kw_line_spacing_sigma kw of
           None \<Rightarrow> Finite (real_of_int font_size / 32) | Some v \<Rightarrow> v),
      attr_font_size_sigma =
        (case kw_font_size_sigma kw of
           None \<Rightarrow> Finite (real_of_int font_size / 64) | Some v \<Rightarrow> v),
      attr_word_spacing_sigma =
        (case kw_word_spacing_sigma kw of
           None \<Rightarrow> Finite (real_of_int font_size / 32) | Some v \<Rightarrow> v),
      attr_end_chars = (case kw_end_chars kw of None \<Rightarrow> DEFAULT_END_CHARS | Some v \<Rightarrow> v),
      attr_perturb_x_sigma =
        (case kw_perturb_x_sigma kw of
           None \<Rightarrow> Finite (real_of_int font_size / 32) | Some v \<Rightarrow> v),
      attr_perturb_y_sigma =
        (case kw_perturb_y_sigma kw of
           None \<Rightarrow> Finite (real_of_int font_size / 32) | Some v \<Rightarrow> v),
      attr_perturb_theta_sigma =
        (case kw_perturb_theta_sigma kw of None \<Rightarrow> Finite (7 / 100) | Some v \<Rightarrow> v)\<rparr>"

subsection \<open>Equality\<close>

text \<open>
  \<^verbatim>\<open>__eq__\<close> compares the values of the getters with \<^verbatim>\<open>==\<close>: on the six sigmas that is
  the comparison of floats, on the other fields equality of values.
\<close>

definition Template_eq :: "'font template \<Rightarrow> 'font pyobj \<Rightarrow> bool" where
  "Template_eq self other =
     (case other of
        PyOther \<Rightarrow> False
      | PyTemplate other \<Rightarrow>
          get_background self = get_background other
          \<and> get_line_spacing self = get_line_spacing other
          \<and> float_eq (get_line_spacing_sigma self) (get_line_spacing_sigma other)
          \<and> get_font_size self = get_font_size other
          \<and> float_eq (get_font_size_sigma self) (get_font_size_sigma other)
          \<and> get_font self = get_font other
          \<and> get_fill self = get_fill other
          \<and> get_left_margin self = get_left_margin other
          \<and> get_top_margin self = get_top_margin other
          \<and> get_right_margin self = get_right_margin other
          \<and> get_bottom_margin self = get_bottom_margin other
          \<and> get_word_spacing self = get_word_spacing other
          \<and> float_eq (get_word_spacing_sigma self) (get_word_spacing_sigma other)
          \<and> get_end_chars self = get_end_chars other
          \<and> float_eq (get_perturb_x_sigma self) (get_perturb_x_sigma other)
          \<and> float_eq (get_perturb_y_sigma self) (get_perturb_y_sigma other)
          \<and> float_eq (get_perturb_theta_sigma self) (get_perturb_theta_sigma other))"

text \<open>
  A Template none of whose six sigmas is \<^verbatim>\<open>nan\<close>.
\<close>

definition nan_free :: "'font template \<Rightarrow> bool" where
  "nan_free t =
     (\<not> is_nan (get_line_spacing_sigma t)
      \<and> \<not> is_nan (get_font_size_sigma t)
      \<and> \<not> is_nan (get_word_spacing_sigma t)
      \<and> \<not> is_nan (get_perturb_x_sigma t)
      \<and> \<not> is_nan (get_perturb_y_sigma t)
      \<and> \<not> is_nan (get_perturb_theta_sigma t))"

subsection \<open>Copies\<close>

text \<open>
  Templates are mutable objects, and \<^verbatim>\<open>copy_templates\<close> is about their identity: the
  store is the list of the objects allocated so far and a reference is an index into it.
  \<^verbatim>\<open>copy.copy\<close> allocates a new object with the attribute values of its argument (a
  shallow copy) and returns its reference. A method call on a reference updates the
  object stored there.
\<close>

type_synonym ref = nat

type_synonym 'font store = "'font template list"

definition copy_copy :: "'font store \<Rightarrow> ref \<Rightarrow> 'font store \<times> ref" where
  "copy_copy h r = (h @ [h ! r], length h)"

text \<open>
  \<^verbatim>\<open>tuple(map(copy.copy, templates))\<close>: the copies are made from left to right.
\<close>

fun copy_templates :: "'font store \<Rightarrow> ref list \<Rightarrow> 'font store \<times> ref list" where
  "copy_templates h [] = (h, [])"
| "copy_templates h (r # templates) =
     (case copy_copy h r of
        (h1, c) \<Rightarrow>
          (case copy_templates h1 templates of
             (h2, cs) \<Rightarrow> (h2, c # cs)))"

definition call_method ::
  "'font store \<Rightarrow> ref \<Rightarrow> ('font template \<Rightarrow> 'font template) \<Rightarrow> 'font store" where
  "call_method h r m = h[r := m (h ! r)]"

subsection \<open>Values for the examples\<close>

text \<open>
  Two small greyscale images, a stand-in for \<^verbatim>\<open>count_bands\<close> that is right on the modes
  \<^verbatim>\<open>"L"\<close> and \<^verbatim>\<open>"RGB"\<close>, and the object a call of the class allocates before
  \<^verbatim>\<open>__init__\<close> runs on it (its attribute values are placeholders: \<^verbatim>\<open>__init__\<close> assigns
  every one of them).
\<close>

definition example_image :: image where
  "example_image = \<lparr>mode = ''L'', size_img = (2, 1), pixels = [255, 255]\<rparr>"

definition other_image :: image where
  "other_image = \<lparr>mode = ''L'', size_img = (1, 3), pixels = [0, 0, 0]\<rparr>"

definition example_count_bands :: "string \<Rightarrow> int" where
  "example_count_bands m = int (length m)"

definition new_object :: "string template" where
  "new_object =
     \<lparr>attr_background = example_image, attr_font_size = 0, attr_line_spacing = 0,
      attr_font = [], attr_fill = Scalar 0, attr_left_margin = 0, attr_top_margin = 0,
      attr_right_margin = 0, attr_bottom_margin = 0, attr_word_spacing = 0,
      attr_line_spacing_sigma = Finite 0, attr_font_size_sigma = Finite 0,
      attr_word_spacing_sigma = Finite 0, attr_end_chars = [],
      attr_perturb_x_sigma = Finite 0, attr_perturb_y_sigma = Finite 0,
      attr_perturb_theta_sigma = Finite 0\<rparr>"

text \<open>
  The Template that \<^verbatim>\<open>Template(example_image, 32, font)\<close> returns (lemma
  \<open>example_template_constructed\<close>), the one that
  \<^verbatim>\<open>Template(example_image, 32, font, line_spacing_sigma=float("nan"))\<close> returns (lemma
  \<open>nan_template_constructed\<close>), and two stores of Templates.
\<close>

definition example_template :: "string template" where
  "example_template =
     \<lparr>attr_background = example_image, attr_font_size = 32, attr_line_spacing = 32,
      attr_font = ''font'', attr_fill = Scalar 0, attr_left_margin = 0, attr_top_margin = 0,
      attr_right_margin = 0, attr_bottom_margin = 0, attr_word_spacing = 0,
      attr_line_spacing_sigma = Finite 1, attr_font_size_sigma = Finite (1 / 2),
      attr_word_spacing_sigma = Finite 1, attr_end_chars = DEFAULT_END_CHARS,
      attr_perturb_x_sigma = Finite 1, attr_perturb_y_sigma = Finite 1,
      attr_perturb_theta_sigma = Finite (7 / 100)\<rparr>"

definition nan_template :: "string template" where
  "nan_template = example_template\<lparr>attr_line_spacing_sigma := NaN\<rparr>"

definition example_store :: "string store" where
  "example_store = [example_template, set_font_size example_template 10]"

definition nan_store :: "string store" where
  "nan_store = [nan_template]"

section \<open>Properties\<close>

subsection \<open>Errors and the sigma setters\<close>

lemma bind_result_Inr: "bind_result (Inr x) f = f x"
  by (simp add: bind_result_def)

lemma bind_result_Inl: "bind_result (Inl e) f = Inl e"
  by (simp add: bind_result_def)

lemma bind_result_assoc:
  "bind_result (bind_result m f) g = bind_result m (\<lambda>x. bind_result (f x) g)"
  by (cases m) (simp_all add: bind_result_def)

lemma bind_result_eq_Inr:
  "(bind_result m f = Inr t) = (\<exists>q. m = Inr q \<and> f q = Inr t)"
  by (cases m) (simp_all add: bind_result_def)

lemma bind_result_eq_Inl:
  "(bind_result m f = Inl e) = (m = Inl e \<or> (\<exists>q. m = Inr q \<and> f q = Inl e))"
  by (cases m) (simp_all add: bind_result_def)

text \<open>
  A sigma setter assigns the argument or the quotient of the font size, when the
  division returns one.
\<close>

lemma set_line_spacing_sigma_bind:
  "set_line_spacing_sigma self a =
     bind_result (case a of None \<Rightarrow> int_truediv (attr_font_size self) 32 | Some v \<Rightarrow> Inr v)
       (\<lambda>q. Inr (self\<lparr>attr_line_spacing_sigma := q\<rparr>))"
  by (cases a) (simp_all add: set_line_spacing_sigma_def bind_result_Inr)

lemma set_font_size_sigma_bind:
  "set_font_size_sigma self a =
     bind_result (case a of None \<Rightarrow> int_truediv (attr_font_size self) 64 | Some v \<Rightarrow> Inr v)
       (\<lambda>q. Inr (self\<lparr>attr_font_size_sigma := q\<rparr>))"
  by (cases a) (simp_all add: set_font_size_sigma_def bind_result_Inr)

lemma set_word_spacing_sigma_bind:
  "set_word_spacing_sigma self a =
     bind_result (case a of None \<Rightarrow> int_truediv (attr_font_size self) 32 | Some v \<Rightarrow> Inr v)
       (\<lambda>q. Inr (self\<lparr>attr_word_spacing_sigma := q\<rparr>))"
  by (cases a) (simp_all add: set_word_spacing_sigma_def bind_result_Inr)

lemma set_perturb_x_sigma_bind:
  "set_perturb_x_sigma self a =
     bind_result (case a of None \<Rightarrow> int_truediv (attr_font_size self) 32 | Some v \<Rightarrow> Inr v)
       (\<lambda>q. Inr (self\<lparr>attr_perturb_x_sigma := q\<rparr>))"
  by (cases a) (simp_all add: set_perturb_x_sigma_def bind_result_Inr)

lemma set_perturb_y_sigma_bind:
  "set_perturb_y_sigma self a =
     bind_result (case a of None \<Rightarrow> int_truediv (attr_font_size self) 32 | Some v \<Rightarrow> Inr v)
       (\<lambda>q. Inr (self\<lparr>attr_perturb_y_sigma := q\<rparr>))"
  by (cases a) (simp_all add: set_perturb_y_sigma_def bind_result_Inr)

lemma set_line_spacing_upd:
  "set_line_spacing self line_spacing =
     self\<lparr>attr_line_spacing := (case line_spacing of None \<Rightarrow> attr_font_size self | Some v \<Rightarrow> v)\<rparr>"
  by (simp add: set_line_spacing_def split: option.split)

lemma set_fill_upd:
  "set_fill count_bands self fill =
     self\<lparr>attr_fill :=
       (case fill of
          None \<Rightarrow>
            if count_bands (mode (attr_background self)) = 1 then Scalar 0
            else Bands (replicate (nat (count_bands (mode (attr_background self)))) 0)
        | Some v \<Rightarrow> v)\<rparr>"
  by (simp add: set_fill_def Let_def split: option.split)

lemmas plain_setter_defs =
  set_background_def set_font_size_def set_line_spacing_upd set_font_def set_fill_upd
  set_left_margin_def set_top_margin_def set_right_margin_def set_bottom_margin_def
  set_word_spacing_def set_end_chars_def set_perturb_theta_sigma_def

lemmas sigma_setter_binds =
  set_line_spacing_sigma_bind set_font_size_sigma_bind set_word_spacing_sigma_bind
  set_perturb_x_sigma_bind set_perturb_y_sigma_bind

lemmas getter_defs =
  get_background_def get_line_spacing_def get_font_size_def get_font_def get_fill_def
  get_left_margin_def get_top_margin_def get_right_margin_def get_bottom_margin_def
  get_word_spacing_def get_line_spacing_sigma_def get_font_size_sigma_def
  get_word_spacing_sigma_def get_end_chars_def get_perturb_x_sigma_def
  get_perturb_y_sigma_def get_perturb_theta_sigma_def

text \<open>
  A quotient by 64 is in range when the quotient by 32 is, and every font size below
  \<open>2 ^ 1024\<close> in absolute value is in range; \<open>10 ^ 310\<close> is not.
\<close>

lemma overflows_64_32: "overflows a 64 \<Longrightarrow> overflows a 32"
proof -
  assume "overflows a 64"
  then have "DBL_OVERFLOW \<le> \<bar>real_of_int a\<bar> / 64"
    by (simp add: overflows_def)
  also have "\<dots> \<le> \<bar>real_of_int a\<bar> / 32"
    by (simp add: field_simps)
  finally show "overflows a 32"
    by (simp add: overflows_def)
qed

lemma font_size_in_range: "\<bar>font_size\<bar> < 2 ^ 1024 \<Longrightarrow> \<not> overflows font_size 32"
proof -
  assume "\<bar>font_size\<bar> < 2 ^ 1024"
  then have "real_of_int \<bar>font_size\<bar> < real_of_int (2 ^ 1024)"
    by (simp only: of_int_less_iff)
  then have "\<bar>real_of_int font_size\<bar> / 32 < 2 ^ 1024 / 32"
    by simp
  also have "(2::real) ^ 1024 / 32 \<le> 2 ^ 1024 - 2 ^ 970"
    by simp
  finally show ?thesis
    by (simp add: overflows_def DBL_OVERFLOW_def)
qed

lemma small_font_sizes: "\<not> overflows 32 32" "\<not> overflows 10 32"
  by (rule font_size_in_range, simp)+

lemma overflows_example: "overflows (10 ^ 310) 32" "\<not> overflows (10 ^ 309) 32"
  by (simp_all add: overflows_def DBL_OVERFLOW_def)

lemma sigma_32_in_range:
  "\<not> overflows font_size 32 \<Longrightarrow>
   (case a of None \<Rightarrow> int_truediv font_size 32 | Some v \<Rightarrow> Inr v) =
     Inr (case a of None \<Rightarrow> Finite (real_of_int font_size / 32) | Some v \<Rightarrow> v)"
  by (cases a) (simp_all add: int_truediv_def)

lemma sigma_64_in_range:
  "\<not> overflows font_size 64 \<Longrightarrow>
   (case a of None \<Rightarrow> int_truediv font_size 64 | Some v \<Rightarrow> Inr v) =
     Inr (case a of None \<Rightarrow> Finite (real_of_int font_size / 64) | Some v \<Rightarrow> v)"
  by (cases a) (simp_all add: int_truediv_def)

lemma sigma_32_value:
  "(case a of None \<Rightarrow> int_truediv font_size 32 | Some v \<Rightarrow> Inr v) = Inr q \<Longrightarrow>
   q = (case a of None \<Rightarrow> Finite (real_of_int font_size / 32) | Some v \<Rightarrow> v)"
  by (cases a) (auto simp add: int_truediv_def split: if_splits)

lemma sigma_64_value:
  "(case a of None \<Rightarrow> int_truediv font_size 64 | Some v \<Rightarrow> Inr v) = Inr q \<Longrightarrow>
   q = (case a of None \<Rightarrow> Finite (real_of_int font_size / 64) | Some v \<Rightarrow> v)"
  by (cases a) (auto simp add: int_truediv_def split: if_splits)

lemma sigma_32_error:
  "(case a of None \<Rightarrow> int_truediv font_size 32 | Some v \<Rightarrow> Inr v) = Inl e \<Longrightarrow>
   e = OverflowError \<and> overflows font_size 32"
  by (cases a) (auto simp add: int_truediv_def split: if_splits)

lemma sigma_64_error:
  "(case a of None \<Rightarrow> int_truediv font_size 64 | Some v \<Rightarrow> Inr v) = Inl e \<Longrightarrow>
   e = OverflowError \<and> overflows font_size 64"
  by (cases a) (auto simp add: int_truediv_def split: if_splits)

lemma sigma_setter_errors:
  "set_line_spacing_sigma self a = Inl e \<Longrightarrow> e = OverflowError"
  "set_font_size_sigma self a = Inl e \<Longrightarrow> e = OverflowError"
  "set_word_spacing_sigma self a = Inl e \<Longrightarrow> e = OverflowError"
  "set_perturb_x_sigma self a = Inl e \<Longrightarrow> e = OverflowError"
  "set_perturb_y_sigma self a = Inl e \<Longrightarrow> e = OverflowError"
  unfolding sigma_setter_binds bind_result_eq_Inl
  using sigma_32_error sigma_64_error by blast+

lemma sigma_setter_not_invalid:
  "set_line_spacing_sigma self a \<noteq> Inl InvalidParameter"
  "set_font_size_sigma self a \<noteq> Inl InvalidParameter"
  "set_word_spacing_sigma self a \<noteq> Inl InvalidParameter"
  "set_perturb_x_sigma self a \<noteq> Inl InvalidParameter"
  "set_perturb_y_sigma self a \<noteq> Inl InvalidParameter"
  using sigma_setter_errors by blast+

lemma sigma_setter_Some:
  "set_line_spacing_sigma self (Some s) = Inr (self\<lparr>attr_line_spacing_sigma := s\<rparr>)"
  "set_font_size_sigma self (Some s) = Inr (self\<lparr>attr_font_size_sigma := s\<rparr>)"
  "set_word_spacing_sigma self (Some s) = Inr (self\<lparr>attr_word_spacing_sigma := s\<rparr>)"
  "set_perturb_x_sigma self (Some s) = Inr (self\<lparr>attr_perturb_x_sigma := s\<rparr>)"
  "set_perturb_y_sigma self (Some s) = Inr (self\<lparr>attr_perturb_y_sigma := s\<rparr>)"
  by (simp_all add: set_line_spacing_sigma_def set_font_size_sigma_def
        set_word_spacing_sigma_def set_perturb_x_sigma_def set_perturb_y_sigma_def)

subsection \<open>What the constructor builds\<close>

lemma Template_init_result:
  "Template_init count_bands self background font_size font line_spacing fill
     left_margin top_margin right_margin bottom_margin word_spacing
     line_spacing_sigma font_size_sigma word_spacing_sigma end_chars
     perturb_x_sigma perturb_y_sigma perturb_theta_sigma =
   bind_result
     (case line_spacing_sigma of None \<Rightarrow> int_truediv font_size 32 | Some v \<Rightarrow> Inr v)
     (\<lambda>q1. bind_result
       (case font_size_sigma of None \<Rightarrow> int_truediv font_size 64 | Some v \<Rightarrow> Inr v)
     (\<lambda>q2. bind_result
       (case word_spacing_sigma of None \<Rightarrow> int_truediv font_size 32 | Some v \<Rightarrow> Inr v)
     (\<lambda>q3. bind_result
       (case perturb_x_sigma of None \<Rightarrow> int_truediv font_size 32 | Some v \<Rightarrow> Inr v)
     (\<lambda>q4. bind_result
       (case perturb_y_sigma of None \<Rightarrow> int_truediv font_size 32 | Some v \<Rightarrow> Inr v)
     (\<lambda>q5. Inr
       \<lparr>attr_background = background,
        attr_font_size = font_size,
        attr_line_spacing = (case line_spacing of None \<Rightarrow> font_size | Some v \<Rightarrow> v),
        attr_font = font,
        attr_fill =
          (case fill of
             None \<Rightarrow>
               if count_bands (mode background) = 1 then Scalar 0
               else Bands (replicate (nat (count_bands (mode background))) 0)
           | Some v \<Rightarrow> v),
        attr_left_margin = left_margin,
        attr_top_margin = top_margin,
        attr_right_margin = right_margin,
        attr_bottom_margin = bottom_margin,
        attr_word_spacing = word_spacing,
        attr_line_spacing_sigma = q1,
        attr_font_size_sigma = q2,
        attr_word_spacing_sigma = q3,
        attr_end_chars = end_chars,
        attr_perturb_x_sigma = q4,
        attr_perturb_y_sigma = q5,
        attr_perturb_theta_sigma = perturb_theta_sigma\<rparr>)))))"
  unfolding Template_init_def Let_def plain_setter_defs sigma_setter_binds
  by (cases self) (simp add: bind_result_assoc bind_result_Inr cong: option.case_cong)

lemma Template_init_fresh:
  "Template_init count_bands self background font_size font line_spacing fill
     left_margin top_margin right_margin bottom_margin word_spacing
     line_spacing_sigma font_size_sigma word_spacing_sigma end_chars
     perturb_x_sigma perturb_y_sigma perturb_theta_sigma =
   Template_init count_bands self' background font_size font line_spacing fill
     left_margin top_margin right_margin bottom_margin word_spacing
     line_spacing_sigma font_size_sigma word_spacing_sigma end_chars
     perturb_x_sigma perturb_y_sigma perturb_theta_sigma"
  by (simp only: Template_init_result)

text \<open>
  The call binds the defaults of the signature and runs \<^verbatim>\<open>__init__\<close>: it returns the
  Template \<open>constructed\<close> when the font size is in range, it returns no other
  Template, and its only error is \<^verbatim>\<open>OverflowError\<close>.
\<close>

lemma Template_new_chain:
  "Template_new count_bands self background font_size font kw =
   bind_result
     (case kw_line_spacing_sigma kw of None \<Rightarrow> int_truediv font_size 32 | Some v \<Rightarrow> Inr v)
     (\<lambda>q1. bind_result
       (case kw_font_size_sigma kw of None \<Rightarrow> int_truediv font_size 64 | Some v \<Rightarrow> Inr v)
     (\<lambda>q2. bind_result
       (case kw_word_spacing_sigma kw of None \<Rightarrow> int_truediv font_size 32 | Some v \<Rightarrow> Inr v)
     (\<lambda>q3. bind_result
       (case kw_perturb_x_sigma kw of None \<Rightarrow> int_truediv font_size 32 | Some v \<Rightarrow> Inr v)
     (\<lambda>q4. bind_result
       (case kw_perturb_y_sigma kw of None \<Rightarrow> int_truediv font_size 32 | Some v \<Rightarrow> Inr v)
     (\<lambda>q5. Inr
       ((constructed count_bands background font_size font kw)
          \<lparr>attr_line_spacing_sigma := q1, attr_font_size_sigma := q2,
           attr_word_spacing_sigma := q3, attr_perturb_x_sigma := q4,
           attr_perturb_y_sigma := q5\<rparr>))))))"
  by (simp add: Template_new_def Template_init_result constructed_def default_arg_def
        DEFAULT_LEFT_MARGIN_def DEFAULT_TOP_MARGIN_def DEFAULT_RIGHT_MARGIN_def
        DEFAULT_BOTTOM_MARGIN_def DEFAULT_WORD_SPACING_def DEFAULT_PERTURB_THETA_SIGMA_def)

lemma constructed_sigmas:
  "(constructed count_bands background font_size font kw)
     \<lparr>attr_line_spacing_sigma :=
        (case kw_line_spacing_sigma kw of
           None \<Rightarrow> Finite (real_of_int font_size / 32) | Some v \<Rightarrow> v),
      attr_font_size_sigma :=
        (case kw_font_size_sigma kw of
           None \<Rightarrow> Finite (real_of_int font_size / 64) | Some v \<Rightarrow> v),
      attr_word_spacing_sigma :=
        (case kw_word_spacing_sigma kw of
           None \<Rightarrow> Finite (real_of_int font_size / 32) | Some v \<Rightarrow> v),
      attr_perturb_x_sigma :=
        (case kw_perturb_x_sigma kw of
           None \<Rightarrow> Finite (real_of_int font_size / 32) | Some v \<Rightarrow> v),
      attr_perturb_y_sigma :=
        (case kw_perturb_y_sigma kw of
           None \<Rightarrow> Finite (real_of_int font_size / 32) | Some v \<Rightarrow> v)\<rparr> =
   constructed count_bands background font_size font kw"
  by (simp add: constructed_def)

lemma Template_new_returns:
  assumes "\<not> overflows font_size 32"
  shows "Template_new count_bands self background font_size font kw =
    Inr (constructed count_bands background font_size font kw)"
proof -
  from assms have "\<not> overflows font_size 64"
    using overflows_64_32 by blast
  note in_range = sigma_32_in_range [OF assms] sigma_64_in_range [OF this]
  show ?thesis
    by (simp only: Template_new_chain in_range bind_result_Inr constructed_sigmas)
qed

lemma Template_new_attrs:
  assumes "Template_new count_bands self background font_size font kw = Inr t"
  shows "t = constructed count_bands background font_size font kw"
proof -
  from assms obtain q1 q2 q3 q4 q5 where
    q1: "(case kw_line_spacing_sigma kw of
            None \<Rightarrow> int_truediv font_size 32 | Some v \<Rightarrow> Inr v) = Inr q1"
    and q2: "(case kw_font_size_sigma kw of
            None \<Rightarrow> int_truediv font_size 64 | Some v \<Rightarrow> Inr v) = Inr q2"
    and q3: "(case kw_word_spacing_sigma kw of
            None \<Rightarrow> int_truediv font_size 32 | Some v \<Rightarrow> Inr v) = Inr q3"
    and q4: "(case kw_perturb_x_sigma kw of
            None \<Rightarrow> int_truediv font_size 32 | Some v \<Rightarrow> Inr v) = Inr q4"
    and q5: "(case kw_perturb_y_sigma kw of
            None \<Rightarrow> int_truediv font_size 32 | Some v \<Rightarrow> Inr v) = Inr q5"
    and t: "t = (constructed count_bands background font_size font kw)
          \<lparr>attr_line_spacing_sigma := q1, attr_font_size_sigma := q2,
           attr_word_spacing_sigma := q3, attr_perturb_x_sigma := q4,
           attr_perturb_y_sigma := q5\<rparr>"
    unfolding Template_new_chain bind_result_eq_Inr by blast
  show ?thesis
    unfolding t sigma_32_value [OF q1] sigma_64_value [OF q2] sigma_32_value [OF q3]
      sigma_32_value [OF q4] sigma_32_value [OF q5]
    by (rule constructed_sigmas)
qed

lemma Template_new_error:
  assumes "Template_new count_bands self background font_size font kw = Inl e"
  shows "e = OverflowError \<and> overflows font_size 32"
  using assms unfolding Template_new_chain bind_result_eq_Inl
  using sigma_32_error sigma_64_error overflows_64_32
  by (elim disjE exE conjE) (blast, blast, blast, blast, blast, simp)

text \<open>
  The examples: \<^verbatim>\<open>Template(example_image, 32, font)\<close>, the same with a \<^verbatim>\<open>nan\<close> sigma, and
  a font size whose quotient by 32 is beyond the doubles.
\<close>

lemmas example_defs =
  no_kwargs_def example_template_def example_image_def example_count_bands_def

lemma example_template_constructed:
  "Template_new example_count_bands self example_image 32 ''font'' no_kwargs =
     Inr example_template"
proof -
  have "\<not> overflows 32 32"
    by (rule font_size_in_range) simp
  then show ?thesis
    by (simp add: Template_new_returns constructed_def no_kwargs_def example_template_def
          example_image_def example_count_bands_def)
qed

lemma nan_template_constructed:
  "Template_new example_count_bands self example_image 32 ''font''
     (no_kwargs\<lparr>kw_line_spacing_sigma := Some NaN\<rparr>) = Inr nan_template"
proof -
  have "\<not> overflows 32 32"
    by (rule font_size_in_range) simp
  then show ?thesis
    by (simp add: Template_new_returns constructed_def no_kwargs_def example_template_def
          nan_template_def example_image_def example_count_bands_def)
qed

lemma overflow_constructs_nothing:
  "Template_new example_count_bands self example_image (10 ^ 310) ''font'' no_kwargs =
     Inl OverflowError"
proof -
  have "int_truediv (10 ^ 310) 32 = Inl OverflowError"
    by (simp add: int_truediv_def overflows_def DBL_OVERFLOW_def)
  then show ?thesis
    unfolding Template_new_chain no_kwargs_def
    by (simp only: kwargs.select_convs option.case bind_result_Inl)
qed

text \<open>
  \<^verbatim>\<open>==\<close> on floats is equality of values that are not \<^verbatim>\<open>nan\<close>, so \<^verbatim>\<open>__eq__\<close> is equality
  of Templates without a \<^verbatim>\<open>nan\<close> sigma.
\<close>

lemma float_eq_refl: "float_eq x x = (\<not> is_nan x)"
  by (cases x) (simp_all add: float_eq_def is_nan_def)

lemma float_eq_iff: "float_eq x y = (x = y \<and> \<not> is_nan x)"
  by (cases x; cases y) (simp_all add: float_eq_def is_nan_def)

lemma Template_eq_iff: "Template_eq t1 (PyTemplate t2) = (t1 = t2 \<and> nan_free t1)"
  by (cases t1, cases t2) (auto simp add: Template_eq_def nan_free_def getter_defs float_eq_iff)

lemma not_nan_sigma_arg:
  "(\<not> is_nan (case a of None \<Rightarrow> Finite r | Some v \<Rightarrow> v)) = (a \<noteq> Some NaN)"
proof (cases a)
  case None
  then show ?thesis by (simp add: is_nan_def)
next
  case (Some v)
  then show ?thesis by (cases v) (simp_all add: is_nan_def)
qed

lemma nan_free_constructed:
  "nan_free (constructed count_bands background font_size font kw) =
     (kw_line_spacing_sigma kw \<noteq> Some NaN
      \<and> kw_font_size_sigma kw \<noteq> Some NaN
      \<and> kw_word_spacing_sigma kw \<noteq> Some NaN
      \<and> kw_perturb_x_sigma kw \<noteq> Some NaN
      \<and> kw_perturb_y_sigma kw \<noteq> Some NaN
      \<and> kw_perturb_theta_sigma kw \<noteq> Some NaN)"
  by (simp add: nan_free_def constructed_def getter_defs not_nan_sigma_arg)

subsection \<open>Size of the background\<close>

text \<open>
  Claim C7. \<^verbatim>\<open>get_size()\<close> returns the size (width, height) of the background the Template
  holds at the time of the call: the one of \<^verbatim>\<open>get_background()\<close>, the new one after
  \<^verbatim>\<open>set_background\<close>, and for a Template that the constructor returns (it returns one for
  every font size in range) the one given to the constructor.
\<close>

theorem get_size_is_background_size:
  "get_size self = size_img (get_background self)
   \<and> get_size (set_background self background') = size_img background'
   \<and> (\<not> overflows font_size 32 \<longrightarrow>
        (\<exists>t. Template_new count_bands self background font_size font kw = Inr t))
   \<and> (\<forall>t. Template_new count_bands self background font_size font kw = Inr t \<longrightarrow>
        get_background t = background \<and> get_size t = size_img background)"
  by (auto simp add: Template_new_returns constructed_def get_size_def get_background_def
        set_background_def dest!: Template_new_attrs)

text \<open>
  The theorem at \<^verbatim>\<open>Template(other_image, 32, font)\<close>: the size is (1, 3).
\<close>

theorem get_size_is_background_size_witness:
  "\<not> overflows 32 32
   \<and> Template_new example_count_bands new_object other_image 32 ''font'' no_kwargs =
       Inr (example_template\<lparr>attr_background := other_image\<rparr>)
   \<and> get_background (example_template\<lparr>attr_background := other_image\<rparr>) = other_image
   \<and> get_size (example_template\<lparr>attr_background := other_image\<rparr>) = (1, 3)"
proof -
  note r = small_font_sizes(1)
  have c: "Template_new example_count_bands new_object other_image 32 ''font'' no_kwargs =
       Inr (example_template\<lparr>attr_background := other_image\<rparr>)"
    by (simp add: Template_new_returns r constructed_def example_defs other_image_def)
  from get_size_is_background_size [where count_bands = example_count_bands
      and self = new_object and background = other_image and font_size = 32
      and font = "''font''" and kw = no_kwargs] r c
  show ?thesis
    by (simp add: other_image_def)
qed

subsection \<open>Defaults derived at construction\<close>

text \<open>
  Claim C6. A Template constructed with \<^verbatim>\<open>line_spacing\<close> left unset has the font size as
  its line spacing; one constructed with an explicit line spacing has that value. The
  constructor returns a Template for every font size in range.
\<close>

theorem line_spacing_defaults_to_font_size:
  "(\<not> overflows font_size 32 \<longrightarrow>
        (\<exists>t. Template_new count_bands self background font_size font (kw\<lparr>kw_line_spacing := None\<rparr>) = Inr t))
   \<and> (\<forall>t. Template_new count_bands self background font_size font (kw\<lparr>kw_line_spacing := None\<rparr>) = Inr t \<longrightarrow>
        get_font_size t = font_size \<and> get_line_spacing t = get_font_size t)
   \<and> (\<not> overflows font_size 32 \<longrightarrow>
        (\<exists>t. Template_new count_bands self background font_size font (kw\<lparr>kw_line_spacing := Some v\<rparr>) = Inr t))
   \<and> (\<forall>t. Template_new count_bands self background font_size font (kw\<lparr>kw_line_spacing := Some v\<rparr>) = Inr t \<longrightarrow>
        get_font_size t = font_size \<and> get_line_spacing t = v)"
  by (auto simp add: Template_new_returns constructed_def getter_defs
        dest!: Template_new_attrs)

text \<open>
  The theorem at font size 32: line spacing 32 when unset, 40 when 40 is given.
\<close>

theorem line_spacing_defaults_to_font_size_witness:
  "\<not> overflows 32 32
   \<and> Template_new example_count_bands new_object example_image 32 ''font''
        (no_kwargs\<lparr>kw_line_spacing := None\<rparr>) = Inr example_template
   \<and> get_font_size example_template = 32
   \<and> get_line_spacing example_template = 32
   \<and> Template_new example_count_bands new_object example_image 32 ''font''
        (no_kwargs\<lparr>kw_line_spacing := Some 40\<rparr>) =
       Inr (example_template\<lparr>attr_line_spacing := 40\<rparr>)
   \<and> get_line_spacing (example_template\<lparr>attr_line_spacing := 40\<rparr>) = 40"
proof -
  note r = small_font_sizes(1)
  have c1: "Template_new example_count_bands new_object example_image 32 ''font''
        (no_kwargs\<lparr>kw_line_spacing := None\<rparr>) = Inr example_template"
    by (simp add: Template_new_returns r constructed_def example_defs)
  have c2: "Template_new example_count_bands new_object example_image 32 ''font''
        (no_kwargs\<lparr>kw_line_spacing := Some 40\<rparr>) =
       Inr (example_template\<lparr>attr_line_spacing := 40\<rparr>)"
    by (simp add: Template_new_returns r constructed_def example_defs)
  from line_spacing_defaults_to_font_size [where count_bands = example_count_bands
      and self = new_object and background = example_image and font_size = 32
      and font = "''font''" and kw = no_kwargs and v = 40] r c1 c2
  show ?thesis
    by simp
qed

text \<open>
  Claim C5. In a Template that the constructor returns, each of the five sigmas derived
  from the font size is the explicit argument when there is one and otherwise
  \<^verbatim>\<open>font_size / 32\<close> (\<^verbatim>\<open>font_size / 64\<close> for the sigma of the font size); the sigma of the
  rotation is the explicit argument or the constant \<^verbatim>\<open>0.07\<close>. The constructor returns a
  Template for every font size in range.
\<close>

theorem sigma_defaults:
  "(\<not> overflows font_size 32 \<longrightarrow>
        (\<exists>t. Template_new count_bands self background font_size font kw = Inr t))
   \<and> (\<forall>t. Template_new count_bands self background font_size font kw = Inr t \<longrightarrow>
        get_line_spacing_sigma t =
            (case kw_line_spacing_sigma kw of
               None \<Rightarrow> Finite (real_of_int font_size / 32) | Some v \<Rightarrow> v)
        \<and> get_font_size_sigma t =
            (case kw_font_size_sigma kw of
               None \<Rightarrow> Finite (real_of_int font_size / 64) | Some v \<Rightarrow> v)
        \<and> get_word_spacing_sigma t =
            (case kw_word_spacing_sigma kw of
               None \<Rightarrow> Finite (real_of_int font_size / 32) | Some v \<Rightarrow> v)
        \<and> get_perturb_x_sigma t =
            (case kw_perturb_x_sigma kw of
               None \<Rightarrow> Finite (real_of_int font_size / 32) | Some v \<Rightarrow> v)
        \<and> get_perturb_y_sigma t =
            (case kw_perturb_y_sigma kw of
               None \<Rightarrow> Finite (real_of_int font_size / 32) | Some v \<Rightarrow> v)
        \<and> get_perturb_theta_sigma t =
            (case kw_perturb_theta_sigma kw of None \<Rightarrow> Finite (7 / 100) | Some v \<Rightarrow> v))"
  by (auto simp add: Template_new_returns constructed_def getter_defs
        dest!: Template_new_attrs)

text \<open>
  The theorem at font size 32 with \<^verbatim>\<open>word_spacing_sigma=5\<close>: the sigmas are 1, 1/2, 5
  and 0.07.
\<close>

theorem sigma_defaults_witness:
  "\<not> overflows 32 32
   \<and> Template_new example_count_bands new_object example_image 32 ''font''
        (no_kwargs\<lparr>kw_word_spacing_sigma := Some (Finite 5)\<rparr>) =
       Inr (example_template\<lparr>attr_word_spacing_sigma := Finite 5\<rparr>)
   \<and> get_line_spacing_sigma (example_template\<lparr>attr_word_spacing_sigma := Finite 5\<rparr>) =
       Finite 1
   \<and> get_font_size_sigma (example_template\<lparr>attr_word_spacing_sigma := Finite 5\<rparr>) =
       Finite (1 / 2)
   \<and> get_word_spacing_sigma (example_template\<lparr>attr_word_spacing_sigma := Finite 5\<rparr>) =
       Finite 5
   \<and> get_perturb_theta_sigma (example_template\<lparr>attr_word_spacing_sigma := Finite 5\<rparr>) =
       Finite (7 / 100)"
proof -
  note r = small_font_sizes(1)
  have c: "Template_new example_count_bands new_object example_image 32 ''font''
        (no_kwargs\<lparr>kw_word_spacing_sigma := Some (Finite 5)\<rparr>) =
       Inr (example_template\<lparr>attr_word_spacing_sigma := Finite 5\<rparr>)"
    by (simp add: Template_new_returns r constructed_def example_defs)
  from sigma_defaults [where count_bands = example_count_bands
      and self = new_object and background = example_image and font_size = 32
      and font = "''font''"
      and kw = "no_kwargs\<lparr>kw_word_spacing_sigma := Some (Finite 5)\<rparr>"] r c
  show ?thesis
    by (simp add: no_kwargs_def)
qed

text \<open>
  Claim C8. With \<^verbatim>\<open>fill\<close> left unset or \<^verbatim>\<open>None\<close>, the constructor and \<^verbatim>\<open>set_fill\<close> derive
  the fill from the number of bands of the mode of the background: the scalar \<^verbatim>\<open>0\<close> for
  one band, a tuple of that many zeros otherwise. A fill that is given is stored as it
  is, whatever the mode.
\<close>

theorem fill_from_mode:
  "(\<not> overflows font_size 32 \<longrightarrow>
        (\<exists>t. Template_new count_bands self background font_size font (kw\<lparr>kw_fill := None\<rparr>) = Inr t))
   \<and> (\<forall>t. Template_new count_bands self background font_size font (kw\<lparr>kw_fill := None\<rparr>) = Inr t \<longrightarrow>
        get_fill t =
            (if count_bands (mode background) = 1 then Scalar 0
             else Bands (replicate (nat (count_bands (mode background))) 0)))
   \<and> get_fill (set_fill count_bands self None) =
        (if count_bands (mode (get_background self)) = 1 then Scalar 0
             else Bands (replicate (nat (count_bands (mode (get_background self)))) 0))
   \<and> (\<not> overflows font_size 32 \<longrightarrow>
        (\<exists>t. Template_new count_bands self background font_size font (kw\<lparr>kw_fill := Some v\<rparr>) = Inr t))
   \<and> (\<forall>t. Template_new count_bands self background font_size font (kw\<lparr>kw_fill := Some v\<rparr>) = Inr t \<longrightarrow>
        get_fill t = v)
   \<and> get_fill (set_fill count_bands self (Some v)) = v"
  by (auto simp add: Template_new_returns constructed_def get_fill_def get_background_def
        set_fill_upd dest!: Template_new_attrs)

text \<open>
  The theorem at a background of mode \<^verbatim>\<open>"L"\<close>: the fill is the scalar 0 when unset, and
  the tuple (255, 0, 0) when that is given.
\<close>

theorem fill_from_mode_witness:
  "\<not> overflows 32 32
   \<and> example_count_bands (mode example_image) = 1
   \<and> Template_new example_count_bands new_object example_image 32 ''font''
        (no_kwargs\<lparr>kw_fill := None\<rparr>) = Inr example_template
   \<and> get_fill example_template = Scalar 0
   \<and> Template_new example_count_bands new_object example_image 32 ''font''
        (no_kwargs\<lparr>kw_fill := Some (Bands [255, 0, 0])\<rparr>) =
       Inr (example_template\<lparr>attr_fill := Bands [255, 0, 0]\<rparr>)
   \<and> get_fill (example_template\<lparr>attr_fill := Bands [255, 0, 0]\<rparr>) = Bands [255, 0, 0]"
proof -
  note r = small_font_sizes(1)
  have c1: "Template_new example_count_bands new_object example_image 32 ''font''
        (no_kwargs\<lparr>kw_fill := None\<rparr>) = Inr example_template"
    by (simp add: Template_new_returns r constructed_def example_defs)
  have c2: "Template_new example_count_bands new_object example_image 32 ''font''
        (no_kwargs\<lparr>kw_fill := Some (Bands [255, 0, 0])\<rparr>) =
       Inr (example_template\<lparr>attr_fill := Bands [255, 0, 0]\<rparr>)"
    by (simp add: Template_new_returns r constructed_def example_defs)
  from fill_from_mode [where count_bands = example_count_bands
      and self = new_object and background = example_image and font_size = 32
      and font = "''font''" and kw = no_kwargs and v = "Bands [255, 0, 0]"] r c1 c2
  show ?thesis
    by (simp add: example_image_def example_count_bands_def)
qed

subsection \<open>Equality\<close>

text \<open>
  Claim C3, as stated, fails in its second half. Two Templates constructed from the same
  arguments, one of them \<^verbatim>\<open>line_spacing_sigma=float("nan")\<close>, do not compare equal: \<^verbatim>\<open>==\<close>
  on floats is false on \<^verbatim>\<open>nan\<close>.
\<close>

theorem eq_nan_counterexample:
  "Template_new example_count_bands new_object example_image 32 ''font''
     (no_kwargs\<lparr>kw_line_spacing_sigma := Some NaN\<rparr>) = Inr nan_template
   \<and> Template_new example_count_bands example_template example_image 32 ''font''
     (no_kwargs\<lparr>kw_line_spacing_sigma := Some NaN\<rparr>) = Inr nan_template
   \<and> \<not> Template_eq nan_template (PyTemplate nan_template)"
  by (simp add: nan_template_constructed Template_eq_iff nan_free_def nan_template_def
        get_line_spacing_sigma_def is_nan_def)

text \<open>
  Claim C3, amended. Two Templates compare equal exactly when each of the seventeen
  field accessors returns values that compare equal under \<^verbatim>\<open>==\<close>, which is when they agree
  on every attribute and hold no \<^verbatim>\<open>nan\<close> sigma; two Templates constructed from the same
  arguments compare equal exactly when none of the six sigma arguments is \<^verbatim>\<open>nan\<close>.
\<close>

theorem eq_is_structural:
  "Template_eq t1 (PyTemplate t2) =
     (get_background t1 = get_background t2
      \<and> get_line_spacing t1 = get_line_spacing t2
      \<and> float_eq (get_line_spacing_sigma t1) (get_line_spacing_sigma t2)
      \<and> get_font_size t1 = get_font_size t2
      \<and> float_eq (get_font_size_sigma t1) (get_font_size_sigma t2)
      \<and> get_font t1 = get_font t2
      \<and> get_fill t1 = get_fill t2
      \<and> get_left_margin t1 = get_left_margin t2
      \<and> get_top_margin t1 = get_top_margin t2
      \<and> get_right_margin t1 = get_right_margin t2
      \<and> get_bottom_margin t1 = get_bottom_margin t2
      \<and> get_word_spacing t1 = get_word_spacing t2
      \<and> float_eq (get_word_spacing_sigma t1) (get_word_spacing_sigma t2)
      \<and> get_end_chars t1 = get_end_chars t2
      \<and> float_eq (get_perturb_x_sigma t1) (get_perturb_x_sigma t2)
      \<and> float_eq (get_perturb_y_sigma t1) (get_perturb_y_sigma t2)
      \<and> float_eq (get_perturb_theta_sigma t1) (get_perturb_theta_sigma t2))
   \<and> Template_eq t1 (PyTemplate t2) = (t1 = t2 \<and> nan_free t1)
   \<and> (\<not> overflows font_size 32 \<longrightarrow>
        (\<exists>a b. Template_new count_bands self1 background font_size font kw = Inr a
            \<and> Template_new count_bands self2 background font_size font kw = Inr b))
   \<and> (\<forall>a b. Template_new count_bands self1 background font_size font kw = Inr a
            \<and> Template_new count_bands self2 background font_size font kw = Inr b \<longrightarrow>
        Template_eq a (PyTemplate b) =
          (kw_line_spacing_sigma kw \<noteq> Some NaN
           \<and> kw_font_size_sigma kw \<noteq> Some NaN
           \<and> kw_word_spacing_sigma kw \<noteq> Some NaN
           \<and> kw_perturb_x_sigma kw \<noteq> Some NaN
           \<and> kw_perturb_y_sigma kw \<noteq> Some NaN
           \<and> kw_perturb_theta_sigma kw \<noteq> Some NaN))"
proof (intro conjI allI impI)
  show "Template_eq t1 (PyTemplate t2) = (t1 = t2 \<and> nan_free t1)"
    by (rule Template_eq_iff)
next
  assume "\<not> overflows font_size 32"
  then show "\<exists>a b. Template_new count_bands self1 background font_size font kw = Inr a
      \<and> Template_new count_bands self2 background font_size font kw = Inr b"
    by (simp add: Template_new_returns)
next
  fix a b
  assume "Template_new count_bands self1 background font_size font kw = Inr a
      \<and> Template_new count_bands self2 background font_size font kw = Inr b"
  then have "a = constructed count_bands background font_size font kw"
    and "b = constructed count_bands background font_size font kw"
    by (blast dest: Template_new_attrs)+
  then show "Template_eq a (PyTemplate b) =
          (kw_line_spacing_sigma kw \<noteq> Some NaN
           \<and> kw_font_size_sigma kw \<noteq> Some NaN
           \<and> kw_word_spacing_sigma kw \<noteq> Some NaN
           \<and> kw_perturb_x_sigma kw \<noteq> Some NaN
           \<and> kw_perturb_y_sigma kw \<noteq> Some NaN
           \<and> kw_perturb_theta_sigma kw \<noteq> Some NaN)"
    by (simp only: Template_eq_iff nan_free_constructed simp_thms)
qed (simp add: Template_eq_def)

text \<open>
  The theorem at two constructions of \<^verbatim>\<open>Template(example_image, 32, font)\<close>: they compare
  equal.
\<close>

theorem eq_is_structural_witness:
  "\<not> overflows 32 32
   \<and> Template_new example_count_bands new_object example_image 32 ''font'' no_kwargs =
       Inr example_template
   \<and> Template_new example_count_bands example_template example_image 32 ''font'' no_kwargs =
       Inr example_template
   \<and> Template_eq example_template (PyTemplate example_template)"
proof -
  have r: "\<not> overflows 32 32"
    by (rule font_size_in_range) simp
  note c = example_template_constructed
  from eq_is_structural [where ?self1.0 = new_object and ?self2.0 = example_template
      and count_bands = example_count_bands and background = example_image
      and font_size = 32 and font = "''font''" and kw = no_kwargs
      and ?t1.0 = example_template and ?t2.0 = example_template]
  have "Template_eq example_template (PyTemplate example_template) =
          (kw_line_spacing_sigma no_kwargs \<noteq> Some NaN
           \<and> kw_font_size_sigma no_kwargs \<noteq> Some NaN
           \<and> kw_word_spacing_sigma no_kwargs \<noteq> Some NaN
           \<and> kw_perturb_x_sigma no_kwargs \<noteq> Some NaN
           \<and> kw_perturb_y_sigma no_kwargs \<noteq> Some NaN
           \<and> kw_perturb_theta_sigma no_kwargs \<noteq> Some NaN)"
    using c by blast
  then have "Template_eq example_template (PyTemplate example_template)"
    by (simp add: no_kwargs_def)
  with r c show ?thesis
    by simp
qed

subsection \<open>No validation of the parameters\<close>

text \<open>
  The class checks no value: a setter is one assignment, and the constructor is the
  sequence of the setters.

  Claim C1, as stated, fails. With font size 10 the bound \<^verbatim>\<open>-font_size // 2\<close> is \<open>-5\<close>;
  \<^verbatim>\<open>Template(example_image, 10, font, word_spacing=-5)\<close> returns a Template that holds the
  word spacing \<open>-5\<close>, and \<^verbatim>\<open>set_word_spacing(-16)\<close> on a Template of font size 32 stores
  \<open>-16\<close>.
\<close>

theorem word_spacing_bound_counterexample:
  "Template_new example_count_bands new_object example_image 10 ''font''
     (no_kwargs\<lparr>kw_word_spacing := Some (- 5)\<rparr>) =
   Inr \<lparr>attr_background = example_image, attr_font_size = 10, attr_line_spacing = 10,
        attr_font = ''font'', attr_fill = Scalar 0, attr_left_margin = 0,
        attr_top_margin = 0, attr_right_margin = 0, attr_bottom_margin = 0,
        attr_word_spacing = - 5,
        attr_line_spacing_sigma = Finite (10 / 32), attr_font_size_sigma = Finite (10 / 64),
        attr_word_spacing_sigma = Finite (10 / 32), attr_end_chars = DEFAULT_END_CHARS,
        attr_perturb_x_sigma = Finite (10 / 32), attr_perturb_y_sigma = Finite (10 / 32),
        attr_perturb_theta_sigma = Finite (7 / 100)\<rparr>
   \<and> (- 5 :: int) \<le> (- 10) div 2
   \<and> get_font_size example_template = 32
   \<and> get_word_spacing (set_word_spacing example_template (- 16)) = - 16
   \<and> (- 16 :: int) \<le> (- 32) div 2"
  by (simp add: Template_new_returns small_font_sizes constructed_def example_defs
        get_font_size_def get_word_spacing_def set_word_spacing_def)

text \<open>
  Claim C1, amended. For every combination of arguments the constructor does not fail
  with \<^verbatim>\<open>InvalidParameter\<close>: its only error is the \<^verbatim>\<open>OverflowError\<close> of a font size whose
  quotient by 32 is beyond the doubles, it returns a Template for every font size in
  range, and a Template it returns holds the word spacing given (\<open>0\<close> when it is left
  out), whatever the value. \<^verbatim>\<open>set_word_spacing\<close> stores its argument and leaves the font
  size alone: the bound \<^verbatim>\<open>word_spacing > -font_size // 2\<close> of the docstring is not checked.
\<close>

theorem word_spacing_stored_unchecked:
  "Template_new count_bands self background font_size font kw \<noteq> Inl InvalidParameter
   \<and> (\<forall>e. Template_new count_bands self background font_size font kw = Inl e \<longrightarrow>
        e = OverflowError \<and> overflows font_size 32)
   \<and> (\<not> overflows font_size 32 \<longrightarrow>
        (\<exists>t. Template_new count_bands self background font_size font kw = Inr t))
   \<and> (\<forall>t. Template_new count_bands self background font_size font kw = Inr t \<longrightarrow>
        get_font_size t = font_size
        \<and> get_word_spacing t = (case kw_word_spacing kw of None \<Rightarrow> 0 | Some w \<Rightarrow> w))
   \<and> get_word_spacing (set_word_spacing self w) = w
   \<and> get_font_size (set_word_spacing self w) = get_font_size self"
  by (auto simp add: Template_new_returns constructed_def get_font_size_def
        get_word_spacing_def set_word_spacing_def
        dest!: Template_new_attrs Template_new_error)

text \<open>
  The theorem at font size 32 and word spacing \<open>-20\<close>, below the bound \<open>-16\<close>.
\<close>

theorem word_spacing_stored_unchecked_witness:
  "\<not> overflows 32 32
   \<and> Template_new example_count_bands new_object example_image 32 ''font''
        (no_kwargs\<lparr>kw_word_spacing := Some (- 20)\<rparr>) =
       Inr (example_template\<lparr>attr_word_spacing := - 20\<rparr>)
   \<and> get_word_spacing (example_template\<lparr>attr_word_spacing := - 20\<rparr>) = - 20
   \<and> get_font_size (example_template\<lparr>attr_word_spacing := - 20\<rparr>) = 32"
proof -
  note r = small_font_sizes(1)
  have c: "Template_new example_count_bands new_object example_image 32 ''font''
        (no_kwargs\<lparr>kw_word_spacing := Some (- 20)\<rparr>) =
       Inr (example_template\<lparr>attr_word_spacing := - 20\<rparr>)"
    by (simp add: Template_new_returns r constructed_def example_defs)
  from word_spacing_stored_unchecked [where count_bands = example_count_bands
      and self = new_object and background = example_image and font_size = 32
      and font = "''font''" and kw = "no_kwargs\<lparr>kw_word_spacing := Some (- 20)\<rparr>"] r c
  show ?thesis
    by (simp add: no_kwargs_def)
qed

text \<open>
  Claim C2, as stated, fails. On a background of width 2 and height 1 the constructor
  accepts a left margin \<open>-1\<close>, margins with left + right = 4 and top + bottom = 4, and
  the sigmas \<open>-1\<close> and \<open>-3\<close>; the setters of a margin and of a sigma store a negative
  value as well.
\<close>

theorem margin_sigma_check_counterexample:
  "size_img example_image = (2, 1)
   \<and> Template_new example_count_bands new_object example_image 10 ''font''
        (no_kwargs\<lparr>kw_left_margin := Some (- 1), kw_top_margin := Some 4,
                   kw_right_margin := Some 5, kw_bottom_margin := Some 0,
                   kw_line_spacing_sigma := Some (Finite (- 1)),
                   kw_perturb_theta_sigma := Some (Finite (- 3))\<rparr>) =
      Inr \<lparr>attr_background = example_image, attr_font_size = 10, attr_line_spacing = 10,
           attr_font = ''font'', attr_fill = Scalar 0, attr_left_margin = - 1,
           attr_top_margin = 4, attr_right_margin = 5, attr_bottom_margin = 0,
           attr_word_spacing = 0,
           attr_line_spacing_sigma = Finite (- 1), attr_font_size_sigma = Finite (10 / 64),
           attr_word_spacing_sigma = Finite (10 / 32), attr_end_chars = DEFAULT_END_CHARS,
           attr_perturb_x_sigma = Finite (10 / 32), attr_perturb_y_sigma = Finite (10 / 32),
           attr_perturb_theta_sigma = Finite (- 3)\<rparr>
   \<and> get_left_margin (set_left_margin example_template (- 1)) = - 1
   \<and> set_font_size_sigma example_template (Some (Finite (- 1))) =
       Inr (example_template\<lparr>attr_font_size_sigma := Finite (- 1)\<rparr>)"
  by (simp add: Template_new_returns small_font_sizes constructed_def example_defs
        get_left_margin_def set_left_margin_def sigma_setter_Some)

text \<open>
  Claim C2, amended. For every combination of arguments neither the constructor nor a
  setter fails with \<^verbatim>\<open>InvalidParameter\<close>. The constructor's only error is the
  \<^verbatim>\<open>OverflowError\<close> of a font size whose quotient by 32 is beyond the doubles; it returns
  a Template for every font size in range, and a Template it returns holds the margins
  given (\<open>0\<close> when left out) and the sigmas given (the derived default when left out).
  Each setter of a margin or of a sigma stores the value it is given: no margin is
  compared with the size of the background and no sigma with zero.
\<close>

theorem margins_and_sigmas_stored_unchecked:
  "Template_new count_bands self background font_size font kw \<noteq> Inl InvalidParameter
   \<and> (\<forall>e. Template_new count_bands self background font_size font kw = Inl e \<longrightarrow>
        e = OverflowError \<and> overflows font_size 32)
   \<and> (\<not> overflows font_size 32 \<longrightarrow>
        (\<exists>t. Template_new count_bands self background font_size font kw = Inr t))
   \<and> (\<forall>t. Template_new count_bands self background font_size font kw = Inr t \<longrightarrow>
        get_background t = background
        \<and> get_left_margin t = (case kw_left_margin kw of None \<Rightarrow> 0 | Some m \<Rightarrow> m)
        \<and> get_top_margin t = (case kw_top_margin kw of None \<Rightarrow> 0 | Some m \<Rightarrow> m)
        \<and> get_right_margin t = (case kw_right_margin kw of None \<Rightarrow> 0 | Some m \<Rightarrow> m)
        \<and> get_bottom_margin t = (case kw_bottom_margin kw of None \<Rightarrow> 0 | Some m \<Rightarrow> m)
        \<and> get_line_spacing_sigma t =
            (case kw_line_spacing_sigma kw of
               None \<Rightarrow> Finite (real_of_int font_size / 32) | Some v \<Rightarrow> v)
        \<and> get_font_size_sigma t =
            (case kw_font_size_sigma kw of
               None \<Rightarrow> Finite (real_of_int font_size / 64) | Some v \<Rightarrow> v)
        \<and> get_word_spacing_sigma t =
            (case kw_word_spacing_sigma kw of
               None \<Rightarrow> Finite (real_of_int font_size / 32) | Some v \<Rightarrow> v)
        \<and> get_perturb_x_sigma t =
            (case kw_perturb_x_sigma kw of
               None \<Rightarrow> Finite (real_of_int font_size / 32) | Some v \<Rightarrow> v)
        \<and> get_perturb_y_sigma t =
            (case kw_perturb_y_sigma kw of
               None \<Rightarrow> Finite (real_of_int font_size / 32) | Some v \<Rightarrow> v)
        \<and> get_perturb_theta_sigma t =
            (case kw_perturb_theta_sigma kw of None \<Rightarrow> Finite (7 / 100) | Some v \<Rightarrow> v))
   \<and> get_left_margin (set_left_margin self m) = m
   \<and> get_top_margin (set_top_margin self m) = m
   \<and> get_right_margin (set_right_margin self m) = m
   \<and> get_bottom_margin (set_bottom_margin self m) = m
   \<and> (\<exists>t. set_line_spacing_sigma self (Some s) = Inr t \<and> get_line_spacing_sigma t = s)
   \<and> (\<exists>t. set_font_size_sigma self (Some s) = Inr t \<and> get_font_size_sigma t = s)
   \<and> (\<exists>t. set_word_spacing_sigma self (Some s) = Inr t \<and> get_word_spacing_sigma t = s)
   \<and> (\<exists>t. set_perturb_x_sigma self (Some s) = Inr t \<and> get_perturb_x_sigma t = s)
   \<and> (\<exists>t. set_perturb_y_sigma self (Some s) = Inr t \<and> get_perturb_y_sigma t = s)
   \<and> set_line_spacing_sigma self a \<noteq> Inl InvalidParameter
   \<and> set_font_size_sigma self a \<noteq> Inl InvalidParameter
   \<and> set_word_spacing_sigma self a \<noteq> Inl InvalidParameter
   \<and> set_perturb_x_sigma self a \<noteq> Inl InvalidParameter
   \<and> set_perturb_y_sigma self a \<noteq> Inl InvalidParameter
   \<and> get_perturb_theta_sigma (set_perturb_theta_sigma self s) = s"
  by (auto simp add: Template_new_returns constructed_def getter_defs plain_setter_defs
        sigma_setter_Some sigma_setter_not_invalid
        dest!: Template_new_attrs Template_new_error)

text \<open>
  The theorem at font size 32 with a right margin 7 (on a background of width 2) and
  \<^verbatim>\<open>perturb_x_sigma=-2\<close>.
\<close>

theorem margins_and_sigmas_stored_unchecked_witness:
  "\<not> overflows 32 32
   \<and> Template_new example_count_bands new_object example_image 32 ''font''
        (no_kwargs\<lparr>kw_right_margin := Some 7, kw_perturb_x_sigma := Some (Finite (- 2))\<rparr>) =
       Inr (example_template\<lparr>attr_right_margin := 7, attr_perturb_x_sigma := Finite (- 2)\<rparr>)
   \<and> get_right_margin
        (example_template\<lparr>attr_right_margin := 7, attr_perturb_x_sigma := Finite (- 2)\<rparr>) = 7
   \<and> get_perturb_x_sigma
        (example_template\<lparr>attr_right_margin := 7, attr_perturb_x_sigma := Finite (- 2)\<rparr>) =
       Finite (- 2)"
proof -
  note r = small_font_sizes(1)
  have c: "Template_new example_count_bands new_object example_image 32 ''font''
        (no_kwargs\<lparr>kw_right_margin := Some 7, kw_perturb_x_sigma := Some (Finite (- 2))\<rparr>) =
       Inr (example_template\<lparr>attr_right_margin := 7, attr_perturb_x_sigma := Finite (- 2)\<rparr>)"
    by (simp add: Template_new_returns r constructed_def example_defs)
  from margins_and_sigmas_stored_unchecked [where count_bands = example_count_bands
      and self = new_object and background = example_image and font_size = 32
      and font = "''font''"
      and kw = "no_kwargs\<lparr>kw_right_margin := Some 7,
                  kw_perturb_x_sigma := Some (Finite (- 2))\<rparr>"] r c
  show ?thesis
    by (simp add: no_kwargs_def)
qed

subsection \<open>Changing the font size\<close>

text \<open>
  Claim C4, as stated, fails. A Template constructed with font size 32 and nothing else
  has line spacing 32 and sigmas 1 (1/2 for the font size); after \<^verbatim>\<open>set_font_size(64)\<close>
  they are still 32, 1 and 1/2, not 64, 2 and 1.
\<close>

theorem set_font_size_recompute_counterexample:
  "Template_new example_count_bands new_object example_image 32 ''font'' no_kwargs =
     Inr example_template
   \<and> get_font_size (set_font_size example_template 64) = 64
   \<and> get_line_spacing (set_font_size example_template 64) = 32
   \<and> get_line_spacing_sigma (set_font_size example_template 64) = Finite 1
   \<and> get_font_size_sigma (set_font_size example_template 64) = Finite (1 / 2)
   \<and> get_word_spacing_sigma (set_font_size example_template 64) = Finite 1
   \<and> get_perturb_x_sigma (set_font_size example_template 64) = Finite 1
   \<and> get_perturb_y_sigma (set_font_size example_template 64) = Finite 1
   \<and> get_line_spacing (set_font_size example_template 64) \<noteq> 64
   \<and> get_line_spacing_sigma (set_font_size example_template 64) \<noteq> Finite (64 / 32)
   \<and> get_font_size_sigma (set_font_size example_template 64) \<noteq> Finite (64 / 64)
   \<and> int_truediv 64 32 = Inr (Finite (64 / 32))
   \<and> int_truediv 64 64 = Inr (Finite (64 / 64))"
proof -
  have "\<not> overflows 64 32" and "\<not> overflows 64 64"
    using font_size_in_range [of 64] overflows_64_32 [of 64] by auto
  then show ?thesis
    by (simp add: example_template_constructed getter_defs set_font_size_def
          example_template_def int_truediv_def)
qed

text \<open>
  Claim C4, amended. \<^verbatim>\<open>set_font_size\<close> stores the new font size and changes nothing else:
  every other getter, \<^verbatim>\<open>get_size()\<close> included, returns what it returned before. For a
  Template that the constructor returned, the line spacing and the five sigmas are
  after the call what they were at construction: the explicit argument, or the default
  derived from the font size given to the constructor.
\<close>

theorem set_font_size_changes_font_size_only:
  "get_font_size (set_font_size self n) = n
   \<and> get_background (set_font_size self n) = get_background self
   \<and> get_line_spacing (set_font_size self n) = get_line_spacing self
   \<and> get_font (set_font_size self n) = get_font self
   \<and> get_fill (set_font_size self n) = get_fill self
   \<and> get_left_margin (set_font_size self n) = get_left_margin self
   \<and> get_top_margin (set_font_size self n) = get_top_margin self
   \<and> get_right_margin (set_font_size self n) = get_right_margin self
   \<and> get_bottom_margin (set_font_size self n) = get_bottom_margin self
   \<and> get_word_spacing (set_font_size self n) = get_word_spacing self
   \<and> get_line_spacing_sigma (set_font_size self n) = get_line_spacing_sigma self
   \<and> get_font_size_sigma (set_font_size self n) = get_font_size_sigma self
   \<and> get_word_spacing_sigma (set_font_size self n) = get_word_spacing_sigma self
   \<and> get_end_chars (set_font_size self n) = get_end_chars self
   \<and> get_perturb_x_sigma (set_font_size self n) = get_perturb_x_sigma self
   \<and> get_perturb_y_sigma (set_font_size self n) = get_perturb_y_sigma self
   \<and> get_perturb_theta_sigma (set_font_size self n) = get_perturb_theta_sigma self
   \<and> get_size (set_font_size self n) = get_size self
   \<and> (\<not> overflows font_size 32 \<longrightarrow>
        (\<exists>t. Template_new count_bands self background font_size font kw = Inr t))
   \<and> (\<forall>t. Template_new count_bands self background font_size font kw = Inr t \<longrightarrow>
        get_font_size (set_font_size t n) = n
        \<and> get_line_spacing (set_font_size t n) =
            (case kw_line_spacing kw of None \<Rightarrow> font_size | Some v \<Rightarrow> v)
        \<and> get_line_spacing_sigma (set_font_size t n) =
            (case kw_line_spacing_sigma kw of
               None \<Rightarrow> Finite (real_of_int font_size / 32) | Some v \<Rightarrow> v)
        \<and> get_font_size_sigma (set_font_size t n) =
            (case kw_font_size_sigma kw of
               None \<Rightarrow> Finite (real_of_int font_size / 64) | Some v \<Rightarrow> v)
        \<and> get_word_spacing_sigma (set_font_size t n) =
            (case kw_word_spacing_sigma kw of
               None \<Rightarrow> Finite (real_of_int font_size / 32) | Some v \<Rightarrow> v)
        \<and> get_perturb_x_sigma (set_font_size t n) =
            (case kw_perturb_x_sigma kw of
               None \<Rightarrow> Finite (real_of_int font_size / 32) | Some v \<Rightarrow> v)
        \<and> get_perturb_y_sigma (set_font_size t n) =
            (case kw_perturb_y_sigma kw of
               None \<Rightarrow> Finite (real_of_int font_size / 32) | Some v \<Rightarrow> v))"
  by (auto simp add: Template_new_returns constructed_def getter_defs get_size_def
        set_font_size_def dest!: Template_new_attrs)

text \<open>
  The theorem at font size 32 with \<^verbatim>\<open>font_size_sigma=3\<close>, followed by
  \<^verbatim>\<open>set_font_size(64)\<close>.
\<close>

theorem set_font_size_changes_font_size_only_witness:
  "\<not> overflows 32 32
   \<and> Template_new example_count_bands new_object example_image 32 ''font''
        (no_kwargs\<lparr>kw_font_size_sigma := Some (Finite 3)\<rparr>) =
       Inr (example_template\<lparr>attr_font_size_sigma := Finite 3\<rparr>)
   \<and> get_font_size
        (set_font_size (example_template\<lparr>attr_font_size_sigma := Finite 3\<rparr>) 64) = 64
   \<and> get_line_spacing
        (set_font_size (example_template\<lparr>attr_font_size_sigma := Finite 3\<rparr>) 64) = 32
   \<and> get_font_size_sigma
        (set_font_size (example_template\<lparr>attr_font_size_sigma := Finite 3\<rparr>) 64) = Finite 3
   \<and> get_perturb_x_sigma
        (set_font_size (example_template\<lparr>attr_font_size_sigma := Finite 3\<rparr>) 64) = Finite 1"
proof -
  note r = small_font_sizes(1)
  have c: "Template_new example_count_bands new_object example_image 32 ''font''
        (no_kwargs\<lparr>kw_font_size_sigma := Some (Finite 3)\<rparr>) =
       Inr (example_template\<lparr>attr_font_size_sigma := Finite 3\<rparr>)"
    by (simp add: Template_new_returns r constructed_def example_defs)
  from set_font_size_changes_font_size_only [where count_bands = example_count_bands
      and self = new_object and background = example_image and font_size = 32
      and font = "''font''" and kw = "no_kwargs\<lparr>kw_font_size_sigma := Some (Finite 3)\<rparr>"
      and n = 64] r c
  show ?thesis
    by (simp add: no_kwargs_def)
qed

subsection \<open>Frame of the plain setters\<close>

text \<open>
  Claim C9, as stated, fails for one getter: \<^verbatim>\<open>get_size()\<close> reads the background, so
  \<^verbatim>\<open>set_background\<close> with an image of another size changes what it returns.
\<close>

theorem set_background_get_size_counterexample:
  "get_size example_template = (2, 1)
   \<and> get_size (set_background example_template other_image) = (1, 3)
   \<and> get_size (set_background example_template other_image) \<noteq> get_size example_template"
  by (simp add: get_size_def get_background_def set_background_def example_template_def
        example_image_def other_image_def)

text \<open>
  Claim C9, amended. Each of \<^verbatim>\<open>set_background\<close>, \<^verbatim>\<open>set_font\<close>, the four margin setters,
  \<^verbatim>\<open>set_word_spacing\<close>, \<^verbatim>\<open>set_end_chars\<close> and \<^verbatim>\<open>set_perturb_theta_sigma\<close> stores its
  argument in its own field and leaves the value of every other field getter as it was;
  \<^verbatim>\<open>get_size()\<close> is unchanged as well, except after \<^verbatim>\<open>set_background\<close>, where it is the
  size of the new background.
\<close>

theorem setters_change_one_field:
  "get_background (set_background self background) = background
   \<and> get_line_spacing (set_background self background) = get_line_spacing self
   \<and> get_font_size (set_background self background) = get_font_size self
   \<and> get_font (set_background self background) = get_font self
   \<and> get_fill (set_background self background) = get_fill self
   \<and> get_left_margin (set_background self background) = get_left_margin self
   \<and> get_top_margin (set_background self background) = get_top_margin self
   \<and> get_right_margin (set_background self background) = get_right_margin self
   \<and> get_bottom_margin (set_background self background) = get_bottom_margin self
   \<and> get_word_spacing (set_background self background) = get_word_spacing self
   \<and> get_line_spacing_sigma (set_background self background) = get_line_spacing_sigma self
   \<and> get_font_size_sigma (set_background self background) = get_font_size_sigma self
   \<and> get_word_spacing_sigma (set_background self background) = get_word_spacing_sigma self
   \<and> get_end_chars (set_background self background) = get_end_chars self
   \<and> get_perturb_x_sigma (set_background self background) = get_perturb_x_sigma self
   \<and> get_perturb_y_sigma (set_background self background) = get_perturb_y_sigma self
   \<and> get_perturb_theta_sigma (set_background self background) = get_perturb_theta_sigma self
   \<and> get_size (set_background self background) = size_img background
   \<and> get_font (set_font self f) = f
   \<and> get_background (set_font self f) = get_background self
   \<and> get_line_spacing (set_font self f) = get_line_spacing self
   \<and> get_font_size (set_font self f) = get_font_size self
   \<and> get_fill (set_font self f) = get_fill self
   \<and> get_left_margin (set_font self f) = get_left_margin self
   \<and> get_top_margin (set_font self f) = get_top_margin self
   \<and> get_right_margin (set_font self f) = get_right_margin self
   \<and> get_bottom_margin (set_font self f) = get_bottom_margin self
   \<and> get_word_spacing (set_font self f) = get_word_spacing self
   \<and> get_line_spacing_sigma (set_font self f) = get_line_spacing_sigma self
   \<and> get_font_size_sigma (set_font self f) = get_font_size_sigma self
   \<and> get_word_spacing_sigma (set_font self f) = get_word_spacing_sigma self
   \<and> get_end_chars (set_font self f) = get_end_chars self
   \<and> get_perturb_x_sigma (set_font self f) = get_perturb_x_sigma self
   \<and> get_perturb_y_sigma (set_font self f) = get_perturb_y_sigma self
   \<and> get_perturb_theta_sigma (set_font self f) = get_perturb_theta_sigma self
   \<and> get_size (set_font self f) = get_size self
   \<and> get_left_margin (set_left_margin self m) = m
   \<and> get_background (set_left_margin self m) = get_background self
   \<and> get_line_spacing (set_left_margin self m) = get_line_spacing self
   \<and> get_font_size (set_left_margin self m) = get_font_size self
   \<and> get_font (set_left_margin self m) = get_font self
   \<and> get_fill (set_left_margin self m) = get_fill self
   \<and> get_top_margin (set_left_margin self m) = get_top_margin self
   \<and> get_right_margin (set_left_margin self m) = get_right_margin self
   \<and> get_bottom_margin (set_left_margin self m) = get_bottom_margin self
   \<and> get_word_spacing (set_left_margin self m) = get_word_spacing self
   \<and> get_line_spacing_sigma (set_left_margin self m) = get_line_spacing_sigma self
   \<and> get_font_size_sigma (set_left_margin self m) = get_font_size_sigma self
   \<and> get_word_spacing_sigma (set_left_margin self m) = get_word_spacing_sigma self
   \<and> get_end_chars (set_left_margin self m) = get_end_chars self
   \<and> get_perturb_x_sigma (set_left_margin self m) = get_perturb_x_sigma self
   \<and> get_perturb_y_sigma (set_left_margin self m) = get_perturb_y_sigma self
   \<and> get_perturb_theta_sigma (set_left_margin self m) = get_perturb_theta_sigma self
   \<and> get_size (set_left_margin self m) = get_size self
   \<and> get_top_margin (set_top_margin self m) = m
   \<and> get_background (set_top_margin self m) = get_background self
   \<and> get_line_spacing (set_top_margin self m) = get_line_spacing self
   \<and> get_font_size (set_top_margin self m) = get_font_size self
   \<and> get_font (set_top_margin self m) = get_font self
   \<and> get_fill (set_top_margin self m) = get_fill self
   \<and> get_left_margin (set_top_margin self m) = get_left_margin self
   \<and> get_right_margin (set_top_margin self m) = get_right_margin self
   \<and> get_bottom_margin (set_top_margin self m) = get_bottom_margin self
   \<and> get_word_spacing (set_top_margin self m) = get_word_spacing self
   \<and> get_line_spacing_sigma (set_top_margin self m) = get_line_spacing_sigma self
   \<and> get_font_size_sigma (set_top_margin self m) = get_font_size_sigma self
   \<and> get_word_spacing_sigma (set_top_margin self m) = get_word_spacing_sigma self
   \<and> get_end_chars (set_top_margin self m) = get_end_chars self
   \<and> get_perturb_x_sigma (set_top_margin self m) = get_perturb_x_sigma self
   \<and> get_perturb_y_sigma (set_top_margin self m) = get_perturb_y_sigma self
   \<and> get_perturb_theta_sigma (set_top_margin self m) = get_perturb_theta_sigma self
   \<and> get_size (set_top_margin self m) = get_size self
   \<and> get_right_margin (set_right_margin self m) = m
   \<and> get_background (set_right_margin self m) = get_background self
   \<and> get_line_spacing (set_right_margin self m) = get_line_spacing self
   \<and> get_font_size (set_right_margin self m) = get_font_size self
   \<and> get_font (set_right_margin self m) = get_font self
   \<and> get_fill (set_right_margin self m) = get_fill self
   \<and> get_left_margin (set_right_margin self m) = get_left_margin self
   \<and> get_top_margin (set_right_margin self m) = get_top_margin self
   \<and> get_bottom_margin (set_right_margin self m) = get_bottom_margin self
   \<and> get_word_spacing (set_right_margin self m) = get_word_spacing self
   \<and> get_line_spacing_sigma (set_right_margin self m) = get_line_spacing_sigma self
   \<and> get_font_size_sigma (set_right_margin self m) = get_font_size_sigma self
   \<and> get_word_spacing_sigma (set_right_margin self m) = get_word_spacing_sigma self
   \<and> get_end_chars (set_right_margin self m) = get_end_chars self
   \<and> get_perturb_x_sigma (set_right_margin self m) = get_perturb_x_sigma self
   \<and> get_perturb_y_sigma (set_right_margin self m) = get_perturb_y_sigma self
   \<and> get_perturb_theta_sigma (set_right_margin self m) = get_perturb_theta_sigma self
   \<and> get_size (set_right_margin self m) = get_size self
   \<and> get_bottom_margin (set_bottom_margin self m) = m
   \<and> get_background (set_bottom_margin self m) = get_background self
   \<and> get_line_spacing (set_bottom_margin self m) = get_line_spacing self
   \<and> get_font_size (set_bottom_margin self m) = get_font_size self
   \<and> get_font (set_bottom_margin self m) = get_font self
   \<and> get_fill (set_bottom_margin self m) = get_fill self
   \<and> get_left_margin (set_bottom_margin self m) = get_left_margin self
   \<and> get_top_margin (set_bottom_margin self m) = get_top_margin self
   \<and> get_right_margin (set_bottom_margin self m) = get_right_margin self
   \<and> get_word_spacing (set_bottom_margin self m) = get_word_spacing self
   \<and> get_line_spacing_sigma (set_bottom_margin self m) = get_line_spacing_sigma self
   \<and> get_font_size_sigma (set_bottom_margin self m) = get_font_size_sigma self
   \<and> get_word_spacing_sigma (set_bottom_margin self m) = get_word_spacing_sigma self
   \<and> get_end_chars (set_bottom_margin self m) = get_end_chars self
   \<and> get_perturb_x_sigma (set_bottom_margin self m) = get_perturb_x_sigma self
   \<and> get_perturb_y_sigma (set_bottom_margin self m) = get_perturb_y_sigma self
   \<and> get_perturb_theta_sigma (set_bottom_margin self m) = get_perturb_theta_sigma self
   \<and> get_size (set_bottom_margin self m) = get_size self
   \<and> get_word_spacing (set_word_spacing self w) = w
   \<and> get_background (set_word_spacing self w) = get_background self
   \<and> get_line_spacing (set_word_spacing self w) = get_line_spacing self
   \<and> get_font_size (set_word_spacing self w) = get_font_size self
   \<and> get_font (set_word_spacing self w) = get_font self
   \<and> get_fill (set_word_spacing self w) = get_fill self
   \<and> get_left_margin (set_word_spacing self w) = get_left_margin self
   \<and> get_top_margin (set_word_spacing self w) = get_top_margin self
   \<and> get_right_margin (set_word_spacing self w) = get_right_margin self
   \<and> get_bottom_margin (set_word_spacing self w) = get_bottom_margin self
   \<and> get_line_spacing_sigma (set_word_spacing self w) = get_line_spacing_sigma self
   \<and> get_font_size_sigma (set_word_spacing self w) = get_font_size_sigma self
   \<and> get_word_spacing_sigma (set_word_spacing self w) = get_word_spacing_sigma self
   \<and> get_end_chars (set_word_spacing self w) = get_end_chars self
   \<and> get_perturb_x_sigma (set_word_spacing self w) = get_perturb_x_sigma self
   \<and> get_perturb_y_sigma (set_word_spacing self w) = get_perturb_y_sigma self
   \<and> get_perturb_theta_sigma (set_word_spacing self w) = get_perturb_theta_sigma self
   \<and> get_size (set_word_spacing self w) = get_size self
   \<and> get_end_chars (set_end_chars self cs) = cs
   \<and> get_background (set_end_chars self cs) = get_background self
   \<and> get_line_spacing (set_end_chars self cs) = get_line_spacing self
   \<and> get_font_size (set_end_chars self cs) = get_font_size self
   \<and> get_font (set_end_chars self cs) = get_font self
   \<and> get_fill (set_end_chars self cs) = get_fill self
   \<and> get_left_margin (set_end_chars self cs) = get_left_margin self
   \<and> get_top_margin (set_end_chars self cs) = get_top_margin self
   \<and> get_right_margin (set_end_chars self cs) = get_right_margin self
   \<and> get_bottom_margin (set_end_chars self cs) = get_bottom_margin self
   \<and> get_word_spacing (set_end_chars self cs) = get_word_spacing self
   \<and> get_line_spacing_sigma (set_end_chars self cs) = get_line_spacing_sigma self
   \<and> get_font_size_sigma (set_end_chars self cs) = get_font_size_sigma self
   \<and> get_word_spacing_sigma (set_end_chars self cs) = get_word_spacing_sigma self
   \<and> get_perturb_x_sigma (set_end_chars self cs) = get_perturb_x_sigma self
   \<and> get_perturb_y_sigma (set_end_chars self cs) = get_perturb_y_sigma self
   \<and> get_perturb_theta_sigma (set_end_chars self cs) = get_perturb_theta_sigma self
   \<and> get_size (set_end_chars self cs) = get_size self
   \<and> get_perturb_theta_sigma (set_perturb_theta_sigma self s) = s
   \<and> get_background (set_perturb_theta_sigma self s) = get_background self
   \<and> get_line_spacing (set_perturb_theta_sigma self s) = get_line_spacing self
   \<and> get_font_size (set_perturb_theta_sigma self s) = get_font_size self
   \<and> get_font (set_perturb_theta_sigma self s) = get_font self
   \<and> get_fill (set_perturb_theta_sigma self s) = get_fill self
   \<and> get_left_margin (set_perturb_theta_sigma self s) = get_left_margin self
   \<and> get_top_margin (set_perturb_theta_sigma self s) = get_top_margin self
   \<and> get_right_margin (set_perturb_theta_sigma self s) = get_right_margin self
   \<and> get_bottom_margin (set_perturb_theta_sigma self s) = get_bottom_margin self
   \<and> get_word_spacing (set_perturb_theta_sigma self s) = get_word_spacing self
   \<and> get_line_spacing_sigma (set_perturb_theta_sigma self s) = get_line_spacing_sigma self
   \<and> get_font_size_sigma (set_perturb_theta_sigma self s) = get_font_size_sigma self
   \<and> get_word_spacing_sigma (set_perturb_theta_sigma self s) = get_word_spacing_sigma self
   \<and> get_end_chars (set_perturb_theta_sigma self s) = get_end_chars self
   \<and> get_perturb_x_sigma (set_perturb_theta_sigma self s) = get_perturb_x_sigma self
   \<and> get_perturb_y_sigma (set_perturb_theta_sigma self s) = get_perturb_y_sigma self
   \<and> get_size (set_perturb_theta_sigma self s) = get_size self"
  by (simp add: getter_defs get_size_def set_background_def set_font_def
        set_left_margin_def set_top_margin_def set_right_margin_def set_bottom_margin_def
        set_word_spacing_def set_end_chars_def set_perturb_theta_sigma_def)

subsection \<open>Copies\<close>

text \<open>
  With every reference of the input in the store, \<^verbatim>\<open>copy_templates\<close> appends one copy
  for each element of the input, in order, and returns the references of the copies.
\<close>

lemma copy_templates_result:
  "\<forall>r\<in>set templates. r < length h \<Longrightarrow>
   copy_templates h templates =
     (h @ map (\<lambda>r. h ! r) templates, [length h ..< length h + length templates])"
proof (induction templates arbitrary: h)
  case Nil
  show ?case by simp
next
  case (Cons r templates)
  let ?h1 = "h @ [h ! r]"
  from Cons.prems have valid: "\<forall>x\<in>set templates. x < length h"
    by simp
  then have "\<forall>x\<in>set templates. x < length ?h1"
    by auto
  then have step: "copy_templates ?h1 templates =
      (?h1 @ map (\<lambda>x. ?h1 ! x) templates, [length ?h1 ..< length ?h1 + length templates])"
    by (rule Cons.IH)
  from valid have same: "map (\<lambda>x. ?h1 ! x) templates = map (\<lambda>x. h ! x) templates"
    by (simp add: nth_append)
  have "[length h ..< length h + length (r # templates)] =
      length h # [length ?h1 ..< length ?h1 + length templates]"
    by (subst upt_rec) simp
  with step same show ?case
    by (simp add: copy_copy_def)
qed

text \<open>
  Claim C10, as stated, fails in one point. The copy of a Template that holds a \<^verbatim>\<open>nan\<close>
  sigma has the same attribute values and does not compare equal to it.
\<close>

theorem copy_nan_counterexample:
  "Template_new example_count_bands new_object example_image 32 ''font''
     (no_kwargs\<lparr>kw_line_spacing_sigma := Some NaN\<rparr>) = Inr nan_template
   \<and> nan_store = [nan_template]
   \<and> copy_templates nan_store [0] = (nan_store @ [nan_store ! 0], [1])
   \<and> (nan_store @ [nan_store ! 0]) ! 1 = nan_template
   \<and> (nan_store @ [nan_store ! 0]) ! 0 = nan_template
   \<and> \<not> Template_eq ((nan_store @ [nan_store ! 0]) ! 1)
         (PyTemplate ((nan_store @ [nan_store ! 0]) ! 0))"
  by (simp add: nan_template_constructed copy_copy_def nan_store_def Template_eq_iff
        nan_free_def nan_template_def get_line_spacing_sigma_def is_nan_def)

text \<open>
  Claim C10, amended. \<^verbatim>\<open>copy_templates\<close> returns as many references as it is given. The
  i-th is a new object (not in the store before, not among the inputs, different from
  every other copy) that holds the attribute values of the i-th input, and compares
  equal to it exactly when the input holds no \<^verbatim>\<open>nan\<close> sigma; the objects of the store
  before the call are untouched by the copying, and a method called on a copy afterwards
  changes the copy and none of them, so every getter of an original returns what it
  returned before.
\<close>

theorem copy_templates_copies:
  assumes valid: "\<forall>r\<in>set templates. r < length h"
    and run: "copy_templates h templates = (h', cs)"
  shows "length cs = length templates
    \<and> distinct cs
    \<and> length h' = length h + length templates
    \<and> (\<forall>r<length h. h' ! r = h ! r)
    \<and> (\<forall>i<length templates.
          length h \<le> cs ! i \<and> cs ! i < length h'
          \<and> cs ! i \<noteq> templates ! i
          \<and> cs ! i \<notin> set templates
          \<and> h' ! (cs ! i) = h ! (templates ! i)
          \<and> Template_eq (h' ! (cs ! i)) (PyTemplate (h' ! (templates ! i))) =
              nan_free (h ! (templates ! i))
          \<and> call_method h' (cs ! i) m ! (cs ! i) = m (h' ! (cs ! i))
          \<and> (\<forall>r<length h. call_method h' (cs ! i) m ! r = h ! r))"
proof -
  from copy_templates_result [OF valid] run
  have h': "h' = h @ map (\<lambda>r. h ! r) templates"
    and cs: "cs = [length h ..< length h + length templates]"
    by simp_all
  have len: "length cs = length templates" and dist: "distinct cs"
    by (simp_all add: cs)
  have size: "length h' = length h + length templates"
    by (simp add: h')
  have old: "\<forall>r<length h. h' ! r = h ! r"
    by (simp add: h' nth_append)
  have each: "length h \<le> cs ! i \<and> cs ! i < length h'
          \<and> cs ! i \<noteq> templates ! i
          \<and> cs ! i \<notin> set templates
          \<and> h' ! (cs ! i) = h ! (templates ! i)
          \<and> Template_eq (h' ! (cs ! i)) (PyTemplate (h' ! (templates ! i))) =
              nan_free (h ! (templates ! i))
          \<and> call_method h' (cs ! i) m ! (cs ! i) = m (h' ! (cs ! i))
          \<and> (\<forall>r<length h. call_method h' (cs ! i) m ! r = h ! r)"
    if i: "i < length templates" for i
  proof -
    from i have ci: "cs ! i = length h + i"
      by (simp add: cs)
    from i valid have ti: "templates ! i < length h"
      by simp
    from ci have fresh: "length h \<le> cs ! i"
      by simp
    from ci i have bound: "cs ! i < length h'"
      by (simp add: size)
    from ci ti have differ: "cs ! i \<noteq> templates ! i"
      by simp
    from valid fresh have notin: "cs ! i \<notin> set templates"
      by auto
    from i have copy: "h' ! (cs ! i) = h ! (templates ! i)"
      by (simp add: ci h' nth_append)
    from ti old have orig: "h' ! (templates ! i) = h ! (templates ! i)"
      by simp
    have equal: "Template_eq (h' ! (cs ! i)) (PyTemplate (h' ! (templates ! i))) =
        nan_free (h ! (templates ! i))"
      by (simp add: copy orig Template_eq_iff)
    from bound have own: "call_method h' (cs ! i) m ! (cs ! i) = m (h' ! (cs ! i))"
      by (simp add: call_method_def)
    have frame: "\<forall>r<length h. call_method h' (cs ! i) m ! r = h ! r"
      using fresh old by (simp add: call_method_def)
    from fresh bound differ notin copy equal own frame show ?thesis
      by blast
  qed
  from len dist size old each show ?thesis
    by blast
qed

text \<open>
  The theorem at a store of two Templates and the input \<^verbatim>\<open>(t0, t1, t0)\<close>: the copies are
  the objects 2, 3 and 4; the second copy equals the second input, which is unchanged by
  \<^verbatim>\<open>set_font_size(99)\<close> on that copy.
\<close>

theorem copy_templates_copies_witness:
  "length example_store = 2
   \<and> copy_templates example_store [0, 1, 0] =
     (example_store @ [example_store ! 0, example_store ! 1, example_store ! 0], [2, 3, 4])
   \<and> nan_free (example_store ! 1)
   \<and> Template_eq
        ((example_store @ [example_store ! 0, example_store ! 1, example_store ! 0]) ! 3)
        (PyTemplate
          ((example_store @ [example_store ! 0, example_store ! 1, example_store ! 0]) ! 1))
   \<and> call_method
        (example_store @ [example_store ! 0, example_store ! 1, example_store ! 0]) 3
        (\<lambda>t. set_font_size t 99) ! 1 = example_store ! 1"
proof -
  let ?h' = "example_store @ [example_store ! 0, example_store ! 1, example_store ! 0]"
  have valid: "\<forall>r\<in>set [0, 1, 0]. r < length example_store"
    by (simp add: example_store_def)
  have run: "copy_templates example_store [0, 1, 0] = (?h', [2, 3, 4])"
    by (simp add: copy_copy_def example_store_def)
  have free: "nan_free (example_store ! 1)"
    by (simp add: example_store_def nan_free_def getter_defs set_font_size_def
          example_template_def is_nan_def)
  from copy_templates_copies [OF valid run, of "\<lambda>t. set_font_size t 99"]
  have each: "\<forall>i<length [0::nat, 1, 0].
          Template_eq (?h' ! ([2, 3, 4] ! i)) (PyTemplate (?h' ! ([0, 1, 0] ! i))) =
            nan_free (example_store ! ([0, 1, 0] ! i))
          \<and> (\<forall>r<length example_store.
                call_method ?h' ([2, 3, 4] ! i) (\<lambda>t. set_font_size t 99) ! r =
                example_store ! r)"
    by blast
  have "Template_eq (?h' ! ([2, 3, 4] ! 1)) (PyTemplate (?h' ! ([0, 1, 0] ! 1))) =
            nan_free (example_store ! ([0, 1, 0] ! 1))
          \<and> (\<forall>r<length example_store.
                call_method ?h' ([2, 3, 4] ! 1) (\<lambda>t. set_font_size t 99) ! r =
                example_store ! r)"
    by (rule each [rule_format]) simp
  with free have "Template_eq (?h' ! 3) (PyTemplate (?h' ! 1))
      \<and> call_method ?h' 3 (\<lambda>t. set_font_size t 99) ! 1 = example_store ! 1"
    by (simp add: example_store_def)
  with run free show ?thesis
    by (simp add: example_store_def)
qed

end
